theory Spec2Isabelle
  imports Main "HOL-Library.Word"
begin

section \<open>The HTTP client of src/client.ts\<close>

text \<open>
  A shallow embedding of the class \<open>HttpClient\<close>. Private members lose their leading
  underscore (\<open>_convertParam\<close> is \<open>convertParam\<close>, the field \<open>_inited\<close> is \<open>inited\<close>), and
  the private method \<open>_request\<close> is \<open>request_exec\<close>, since \<open>request\<close> is the public one.
\<close>

subsection \<open>Strings and numbers\<close>

text \<open>
  A JavaScript string is the list of its UTF-16 code units. \<open>str\<close> turns a literal of
  ASCII characters into one.
\<close>

type_synonym jsstring = "16 word list"

definition str :: "string \<Rightarrow> jsstring" where
  "str s = map (\<lambda>c. of_nat (of_char c)) s"

definition digit :: "nat \<Rightarrow> 16 word" where
  "digit n = str ''0123456789ABCDEF'' ! (n mod 16)"

fun dec :: "nat \<Rightarrow> jsstring" where
  "dec n = (if n < 10 then [digit n] else dec (n div 10) @ [digit (n mod 10)])"

declare dec.simps [simp del]

text \<open>
  A JavaScript number. A finite number other than zero is given by its sign and by the
  digits \<open>s\<close> and the exponent \<open>n\<close> that \<open>Number::toString\<close> of ECMAScript prints it from:
  \<open>s\<close> has \<open>k\<close> decimal digits, the value is \<open>s * 10^(n - k)\<close>, and \<open>k\<close> is as small as
  possible. The flag is \<open>True\<close> for a negative number.
\<close>

datatype jsnum =
    NaN
  | Infinity bool
  | Zero bool
  | Decimal bool nat int

fun stripZeros :: "nat \<Rightarrow> nat" where
  "stripZeros n = (if 0 < n \<and> n mod 10 = 0 then stripZeros (n div 10) else n)"

declare stripZeros.simps [simp del]

definition numOfInt :: "int \<Rightarrow> jsnum" where
  "numOfInt i =
     (if i = 0 then Zero False
      else Decimal (i < 0) (stripZeros (nat \<bar>i\<bar>)) (int (length (dec (nat \<bar>i\<bar>)))))"

definition positiveToString :: "nat \<Rightarrow> int \<Rightarrow> jsstring" where
  "positiveToString s n =
     (let ds = dec s; k = int (length ds) in
        if k \<le> n \<and> n \<le> 21 then ds @ replicate (nat (n - k)) (digit 0)
        else if 0 < n \<and> n \<le> 21 then take (nat n) ds @ str ''.'' @ drop (nat n) ds
        else if - 6 < n \<and> n \<le> 0 then str ''0.'' @ replicate (nat (- n)) (digit 0) @ ds
        else
          (let e = n - 1;
               ex = (if e < 0 then str ''-'' else str ''+'') @ dec (nat \<bar>e\<bar>)
           in if k = 1 then ds @ str ''e'' @ ex
              else take 1 ds @ str ''.'' @ drop 1 ds @ str ''e'' @ ex))"

fun numberToString :: "jsnum \<Rightarrow> jsstring" where
  "numberToString NaN = str ''NaN''"
| "numberToString (Infinity neg) = (if neg then str ''-Infinity'' else str ''Infinity'')"
| "numberToString (Zero neg) = str ''0''"
| "numberToString (Decimal neg s n) = (if neg then str ''-'' else []) @ positiveToString s n"

text \<open>\<open>===\<close> on numbers: \<open>NaN\<close> equals nothing, the two zeros are equal.\<close>

fun numEquals :: "jsnum \<Rightarrow> jsnum \<Rightarrow> bool" where
  "numEquals NaN y = False"
| "numEquals x NaN = False"
| "numEquals (Zero a) (Zero b) = True"
| "numEquals x y = (x = y)"

subsection \<open>Values\<close>

text \<open>
  The values a flat mapping holds are primitives. A decoded body is a \<open>jsval\<close>: an
  object is the list of its own enumerable properties in the order of \<open>Object.keys\<close>,
  and \<open>JBuiltin\<close> is a function or object of the runtime, known by its name, which a
  property read reaches through the prototype chain.
\<close>

datatype primitive =
    PUndefined
  | PNull
  | PBool bool
  | PNum jsnum
  | PStr jsstring
  | PBigInt int
  | PSymbol

datatype jsval =
    JUndefined
  | JNull
  | JBool bool
  | JNum jsnum
  | JStr jsstring
  | JArr "jsval list"
  | JObj "(jsstring \<times> jsval) list"
  | JBuiltin jsstring

fun truthy :: "jsval \<Rightarrow> bool" where
  "truthy JUndefined = False"
| "truthy JNull = False"
| "truthy (JBool b) = b"
| "truthy (JNum NaN) = False"
| "truthy (JNum (Zero neg)) = False"
| "truthy (JNum x) = True"
| "truthy (JStr s) = (s \<noteq> [])"
| "truthy (JArr xs) = True"
| "truthy (JObj kvs) = True"
| "truthy (JBuiltin name) = True"

subsection \<open>Options, responses and errors\<close>

text \<open>
  The enums of \<open>./enum\<close> are not part of the sources. Modelled from the spec:
  \<open>HttpObserveType\<close> is the observation mode \<open>Body | Event\<close>, and \<open>HttpErrorCodeType\<close> is
  the closed taxonomy of section 4.5, under the member names \<open>client.ts\<close> uses.
\<close>

datatype HttpObserveType = Body | Event

datatype HttpErrorCodeType = Server | Offline | UnAuth | NotFound

text \<open>
  A property of an object is absent, present with the value \<open>undefined\<close>, or present
  with a value. Reading it gives \<open>undefined\<close> (\<open>None\<close>) in the first two cases; the object
  spread \<open>{ ...a, ...b }\<close> copies every property that is present in \<open>b\<close>, also an
  \<open>undefined\<close> one, over the one of \<open>a\<close>.
\<close>

datatype 'a property = Absent | Undefined | Value 'a

fun val :: "'a property \<Rightarrow> 'a option" where
  "val Absent = None"
| "val Undefined = None"
| "val (Value v) = Some v"

definition override :: "'a property \<Rightarrow> 'a property \<Rightarrow> 'a property" where
  "override a b = (case b of Absent \<Rightarrow> a | Undefined \<Rightarrow> Undefined | Value v \<Rightarrow> Value v)"

record ResultKey =
  code :: "jsstring option"
  data :: "jsstring option"

text \<open>
  The types of \<open>./type\<close> are not part of the sources. Modelled from the spec:
  \<open>HttpRequestOptionsType\<close> and \<open>HttpConfigType\<close> are one record of the properties
  \<open>client.ts\<close> reads, each of them optional.
\<close>

record HttpRequestOptionsType =
  params :: "(jsstring \<times> primitive) list property"
  header :: "(jsstring \<times> jsval) list property"
  baseUrl :: "jsstring property"
  body :: "jsval property"
  withCredentials :: "bool property"
  responseType :: "jsstring property"
  timeout :: "nat property"
  observe :: "HttpObserveType property"
  responseResultKey :: "ResultKey property"
  successCode :: "jsval property"
  validateStatus :: "(int \<Rightarrow> bool) property"

type_synonym HttpConfigType = HttpRequestOptionsType

definition spread :: "HttpRequestOptionsType \<Rightarrow> HttpRequestOptionsType \<Rightarrow> HttpRequestOptionsType" where
  "spread a b =
     \<lparr> params = override (params a) (params b),
       header = override (header a) (header b),
       baseUrl = override (baseUrl a) (baseUrl b),
       body = override (body a) (body b),
       withCredentials = override (withCredentials a) (withCredentials b),
       responseType = override (responseType a) (responseType b),
       timeout = override (timeout a) (timeout b),
       observe = override (observe a) (observe b),
       responseResultKey = override (responseResultKey a) (responseResultKey b),
       successCode = override (successCode a) (successCode b),
       validateStatus = override (validateStatus a) (validateStatus b) \<rparr>"

definition emptyObject :: HttpRequestOptionsType where
  "emptyObject =
     \<lparr> params = Absent, header = Absent, baseUrl = Absent, body = Absent,
       withCredentials = Absent, responseType = Absent, timeout = Absent, observe = Absent,
       responseResultKey = Absent, successCode = Absent, validateStatus = Absent \<rparr>"

text \<open>
  What \<open>client.ts\<close> takes from outside and the sources do not hold: the two constants of
  \<open>./const\<close>; the members a value inherits from the prototypes of the runtime
  (\<open>inherited v key\<close> is the name of the built-in that \<open>v[key]\<close> reaches when \<open>key\<close> is
  not an own property of \<open>v\<close>); and whether \<open>clear\<close> of \<open>./pubsub\<close> works when it is
  called without its receiver (as an arrow function or a bound function does).
\<close>

record Deps =
  HTTP_DEFAULT_CONFIG :: HttpConfigType
  HTTP_DEFAULT_REQUEST_OPTION :: HttpRequestOptionsType
  inherited :: "jsval \<Rightarrow> jsstring \<Rightarrow> jsstring option"
  clear_bound :: bool

text \<open>The transport's response (its \<open>data\<close> and \<open>status\<close>) and its rejection.\<close>

datatype AxiosResponse = AxiosResponse (resp_data: jsval) (resp_status: int)

datatype AxiosError = AxiosError (err_response: "AxiosResponse option")

datatype ProgressEvent = ProgressEvent (loaded: nat) (total: nat)

datatype StreamEvent =
    HttpUploadProgressEvent ProgressEvent
  | HttpDownloadProgressEvent ProgressEvent
  | Response AxiosResponse

text \<open>
  \<open>HttpResponseError\<close> of \<open>./response\<close> is not part of the sources. Modelled from the spec:
  it carries what it wraps (the transport's rejection, or the stream event handed to the
  interpreter) and the options, and its \<open>status\<close> is derived: 0 for a failure without a
  response, the HTTP status otherwise.
\<close>

datatype HttpResponseError =
  HttpResponseError (wrapped: "AxiosError + StreamEvent") (err_options: HttpRequestOptionsType)

fun status :: "HttpResponseError \<Rightarrow> int" where
  "status (HttpResponseError (Inl (AxiosError None)) opts) = 0"
| "status (HttpResponseError (Inl (AxiosError (Some r))) opts) = resp_status r"
| "status (HttpResponseError (Inr (Response r)) opts) = resp_status r"
| "status (HttpResponseError (Inr ev) opts) = 0"

text \<open>
  What a \<open>throw\<close> carries: \<open>new Error(message)\<close>, a \<open>TypeError\<close> or a \<open>URIError\<close> of the
  runtime, or a response error.
\<close>

datatype thrown =
    JsError jsstring
  | TypeError
  | URIError
  | ResponseError HttpResponseError

fun instanceofHttpResponseError :: "thrown \<Rightarrow> bool" where
  "instanceofHttpResponseError (ResponseError e) = True"
| "instanceofHttpResponseError e = False"

subsection \<open>Percent encoding\<close>

text \<open>
  \<open>encodeURIComponent\<close> of ECMAScript: the argument is converted to a string (a Symbol
  raises \<open>TypeError\<close>); a code unit of the unreserved set is kept; any other character is
  read as a code point (a surrogate pair is one, a surrogate on its own raises
  \<open>URIError\<close>) and each byte of its UTF-8 encoding is written as \<open>%\<close> and two upper-case
  hexadecimal digits.
\<close>

fun primToString :: "primitive \<Rightarrow> thrown + jsstring" where
  "primToString PUndefined = Inr (str ''undefined'')"
| "primToString PNull = Inr (str ''null'')"
| "primToString (PBool b) = Inr (if b then str ''true'' else str ''false'')"
| "primToString (PNum x) = Inr (numberToString x)"
| "primToString (PStr s) = Inr s"
| "primToString (PBigInt i) = Inr ((if i < 0 then str ''-'' else []) @ dec (nat \<bar>i\<bar>))"
| "primToString PSymbol = Inl TypeError"

definition unreserved :: "16 word \<Rightarrow> bool" where
  "unreserved c =
     (let n = unat c in
        (48 \<le> n \<and> n \<le> 57) \<or> (65 \<le> n \<and> n \<le> 90) \<or> (97 \<le> n \<and> n \<le> 122)
        \<or> c \<in> set (str ''-_.!~*()'') \<or> n = 39)"

definition highSurrogate :: "16 word \<Rightarrow> bool" where
  "highSurrogate c = (0xD800 \<le> unat c \<and> unat c \<le> 0xDBFF)"

definition lowSurrogate :: "16 word \<Rightarrow> bool" where
  "lowSurrogate c = (0xDC00 \<le> unat c \<and> unat c \<le> 0xDFFF)"

definition utf8 :: "nat \<Rightarrow> nat list" where
  "utf8 v =
     (if v < 0x80 then [v]
      else if v < 0x800 then [0xC0 + v div 0x40, 0x80 + v mod 0x40]
      else if v < 0x10000
      then [0xE0 + v div 0x1000, 0x80 + v div 0x40 mod 0x40, 0x80 + v mod 0x40]
      else [0xF0 + v div 0x40000, 0x80 + v div 0x1000 mod 0x40, 0x80 + v div 0x40 mod 0x40,
            0x80 + v mod 0x40])"

definition escape :: "nat \<Rightarrow> jsstring" where
  "escape v = concat (map (\<lambda>b. str ''%'' @ [digit (b div 16), digit (b mod 16)]) (utf8 v))"

fun encode :: "jsstring \<Rightarrow> thrown + jsstring" where
  "encode [] = Inr []"
| "encode (c # cs) =
     (if unreserved c
      then (case encode cs of Inl e \<Rightarrow> Inl e | Inr r \<Rightarrow> Inr (c # r))
      else if lowSurrogate c then Inl URIError
      else if \<not> highSurrogate c
      then (case encode cs of Inl e \<Rightarrow> Inl e | Inr r \<Rightarrow> Inr (escape (unat c) @ r))
      else (case cs of
              [] \<Rightarrow> Inl URIError
            | d # ds \<Rightarrow>
                if \<not> lowSurrogate d then Inl URIError
                else (case encode ds of
                        Inl e \<Rightarrow> Inl e
                      | Inr r \<Rightarrow>
                          Inr (escape ((unat c - 0xD800) * 0x400 + (unat d - 0xDC00) + 0x10000)
                               @ r))))"

definition encodeURIComponent :: "primitive \<Rightarrow> thrown + jsstring" where
  "encodeURIComponent v = (case primToString v of Inl e \<Rightarrow> Inl e | Inr s \<Rightarrow> encode s)"

subsection \<open>Method check, query string and URL\<close>

definition isValidMethod :: "jsstring \<Rightarrow> bool" where
  "isValidMethod method =
     (method \<in> set (map str [''delete'', ''get'', ''head'', ''options'', ''patch'', ''post'',
        ''put'', ''jsonp'']))"

text \<open>\<open>Array.prototype.join\<close> on an array of strings.\<close>

definition join :: "jsstring \<Rightarrow> jsstring list \<Rightarrow> jsstring" where
  "join sep xs = (case xs of [] \<Rightarrow> [] | y # ys \<Rightarrow> foldl (\<lambda>acc s. acc @ sep @ s) y ys)"

text \<open>
  \<open>_convertParam\<close>: the loop over \<open>Object.keys(params)\<close> pushes one entry for every key
  whose value is not \<open>undefined\<close>, the key encoded before the value; an exception of
  \<open>encodeURIComponent\<close> leaves the loop. The array is then joined. \<open>None\<close> is a missing
  (\<open>undefined\<close> or \<open>null\<close>) argument.
\<close>

fun convertParam_loop :: "(jsstring \<times> primitive) list \<Rightarrow> jsstring list \<Rightarrow> thrown + jsstring list" where
  "convertParam_loop [] array = Inr array"
| "convertParam_loop ((key, v) # rest) array =
     (if v \<noteq> PUndefined
      then (case encodeURIComponent (PStr key) of
              Inl e \<Rightarrow> Inl e
            | Inr k \<Rightarrow>
                (case encodeURIComponent v of
                   Inl e \<Rightarrow> Inl e
                 | Inr x \<Rightarrow> convertParam_loop rest (array @ [k @ str ''='' @ x])))
      else convertParam_loop rest array)"

definition convertParam :: "(jsstring \<times> primitive) list option \<Rightarrow> thrown + jsstring" where
  "convertParam params' =
     (case params' of
        None \<Rightarrow> Inr []
      | Some kvs \<Rightarrow>
          (case convertParam_loop kvs [] of
             Inl e \<Rightarrow> Inl e
           | Inr array \<Rightarrow> Inr (join (str ''&'') array)))"

text \<open>
  \<open>_getUrl\<close>: the parameter defaults to the empty string when it is \<open>undefined\<close>; the
  regular expression \<open>/\?$/\<close> has no multiline flag, so it tests the last character.
\<close>

definition endsWithQuestionMark :: "jsstring \<Rightarrow> bool" where
  "endsWithQuestionMark url = (url \<noteq> [] \<and> [last url] = str ''?'')"

definition getUrl :: "jsstring \<Rightarrow> jsstring option \<Rightarrow> jsstring" where
  "getUrl url params' =
     (let query = (case params' of None \<Rightarrow> [] | Some p \<Rightarrow> p) in
        if query \<noteq> []
        then url @ (if endsWithQuestionMark url then query else str ''?'' @ query)
        else url)"

subsection \<open>The response interpreter\<close>

text \<open>
  Property read \<open>json[key]\<close>: an own property (a field of an object, the \<open>length\<close> or an
  element of an array or of a string, which counts code units), and otherwise what the
  prototype chain of the runtime gives. An \<open>undefined\<close> key names the property
  \<open>undefined\<close>.
\<close>

definition indexed :: "'a list \<Rightarrow> jsstring \<Rightarrow> 'a option" where
  "indexed xs key =
     (case filter (\<lambda>(i, x). dec i = key) (zip [0 ..< length xs] xs) of
        [] \<Rightarrow> None
      | (i, x) # rest \<Rightarrow> Some x)"

fun own :: "jsval \<Rightarrow> jsstring \<Rightarrow> jsval option" where
  "own (JObj kvs) key = map_of kvs key"
| "own (JArr xs) key =
     (if key = str ''length'' then Some (JNum (numOfInt (int (length xs))))
      else indexed xs key)"
| "own (JStr s) key =
     (if key = str ''length'' then Some (JNum (numOfInt (int (length s))))
      else (case indexed s key of None \<Rightarrow> None | Some c \<Rightarrow> Some (JStr [c])))"
| "own v key = None"

definition getProp :: "Deps \<Rightarrow> jsval \<Rightarrow> jsstring \<Rightarrow> jsval" where
  "getProp K json key =
     (case own json key of
        Some v \<Rightarrow> v
      | None \<Rightarrow> (case inherited K json key of Some name \<Rightarrow> JBuiltin name | None \<Rightarrow> JUndefined))"

definition propertyKey :: "jsstring option \<Rightarrow> jsstring" where
  "propertyKey k = (case k of None \<Rightarrow> str ''undefined'' | Some s \<Rightarrow> s)"

text \<open>
  Strict equality \<open>===\<close>, which \<open>indexOf\<close> compares with. Objects and arrays are equal
  only when they are the same object, and a value read from a decoded body is never the
  object held in the options; a built-in is equal to itself.
\<close>

fun strictEquals :: "jsval \<Rightarrow> jsval \<Rightarrow> bool" where
  "strictEquals (JNum x) (JNum y) = numEquals x y"
| "strictEquals (JArr xs) b = False"
| "strictEquals (JObj kvs) b = False"
| "strictEquals a b = (a = b)"

fun indexOf_from :: "int \<Rightarrow> jsval list \<Rightarrow> jsval \<Rightarrow> int" where
  "indexOf_from i [] v = - 1"
| "indexOf_from i (x # xs) v = (if strictEquals x v then i else indexOf_from (i + 1) xs v)"

definition indexOf :: "jsval list \<Rightarrow> jsval \<Rightarrow> int" where
  "indexOf xs v = indexOf_from 0 xs v"

datatype Interpreted = Payload jsval | Failure HttpResponseError

text \<open>
  \<open>_handleJsonResponse\<close>. Reading \<open>responseKey.code\<close> raises a \<open>TypeError\<close> when
  \<open>options.responseResultKey\<close> is \<open>undefined\<close>.
\<close>

definition handleJsonResponse ::
  "Deps \<Rightarrow> jsval \<Rightarrow> StreamEvent \<Rightarrow> HttpRequestOptionsType \<Rightarrow> thrown + Interpreted" where
  "handleJsonResponse K json response options =
     (case val (responseResultKey options) of
        None \<Rightarrow> Inl TypeError
      | Some responseKey \<Rightarrow>
          (let successCode = (case val (successCode options) of None \<Rightarrow> JUndefined | Some c \<Rightarrow> c);
               keyCode = propertyKey (code responseKey);
               successCode = (case successCode of JArr cs \<Rightarrow> cs | c \<Rightarrow> [c])
           in if truthy json \<and> getProp K json keyCode \<noteq> JUndefined
                 \<and> indexOf successCode (getProp K json keyCode) \<noteq> - 1
              then Inr (Payload (getProp K json (propertyKey (data responseKey))))
              else Inr (Failure (HttpResponseError (Inr response) options))))"

subsection \<open>The publish/subscribe bus\<close>

text \<open>
  A handler passed to \<open>listen\<close> is modelled by an identifier and by whether a call of it
  throws; every call is appended to the trace \<open>invoked\<close>. The closure \<open>listen\<close> registers,
  \<open>(err, options) => handle(type, err, options)\<close>, is a \<open>Listener\<close>.
\<close>

datatype Handle =
  Handle (hid: nat)
    (outcome: "HttpErrorCodeType \<Rightarrow> HttpResponseError \<Rightarrow> HttpRequestOptionsType \<Rightarrow> thrown option")

datatype Listener = Listener Handle HttpErrorCodeType

type_synonym Call = "nat \<times> HttpErrorCodeType \<times> HttpResponseError \<times> HttpRequestOptionsType"

record AxiosRequestConfig =
  cfg_method :: jsstring
  cfg_url :: jsstring
  cfg_baseURL :: "jsstring option"
  cfg_data :: "jsval option"
  cfg_headers :: "(jsstring \<times> jsval) list"
  cfg_withCredentials :: bool
  cfg_responseType :: jsstring
  cfg_timeout :: nat
  cfg_validateStatus :: "int \<Rightarrow> bool"

text \<open>
  What a subscription does beyond its stream: the values given to \<open>console.error\<close>, the
  handler calls, and the requests handed to the transport.
\<close>

record World =
  console_error :: "thrown list"
  invoked :: "Call list"
  issued :: "AxiosRequestConfig list"

text \<open>
  \<open>PubSub\<close> of \<open>./pubsub\<close> is not part of the sources. Modelled from the spec: the
  registry is the list of registrations in order; \<open>emit\<close> calls the handlers registered
  under the topic, in registration order, and a handler that throws ends the emission
  with its exception; \<open>clear\<close>, called on the bus, removes every registration. The topic
  \<open>None\<close> is \<open>undefined\<close>.
\<close>

type_synonym PubSub = "(HttpErrorCodeType option \<times> Listener) list"

definition on :: "HttpErrorCodeType option \<Rightarrow> Listener \<Rightarrow> PubSub \<Rightarrow> PubSub" where
  "on topic l bus = bus @ [(topic, l)]"

definition clear :: "PubSub \<Rightarrow> PubSub" where
  "clear bus = []"

fun call :: "Listener \<Rightarrow> HttpResponseError \<Rightarrow> HttpRequestOptionsType \<Rightarrow> World \<Rightarrow> thrown option \<times> World" where
  "call (Listener h type) err options w =
     (outcome h type err options, w\<lparr>invoked := invoked w @ [(hid h, type, err, options)]\<rparr>)"

fun call_all :: "Listener list \<Rightarrow> HttpResponseError \<Rightarrow> HttpRequestOptionsType \<Rightarrow> World \<Rightarrow> thrown option \<times> World" where
  "call_all [] err options w = (None, w)"
| "call_all (l # ls) err options w =
     (case call l err options w of
        (Some e, w') \<Rightarrow> (Some e, w')
      | (None, w') \<Rightarrow> call_all ls err options w')"

definition emit ::
  "PubSub \<Rightarrow> HttpErrorCodeType option \<Rightarrow> HttpResponseError \<Rightarrow> HttpRequestOptionsType \<Rightarrow> World
     \<Rightarrow> thrown option \<times> World" where
  "emit bus topic err options w =
     call_all (map snd (filter (\<lambda>(t, l). t = topic) bus)) err options w"

subsection \<open>The client's state\<close>

record HttpClient =
  commonHeader :: "(jsstring \<times> jsval) list"
  inited :: bool
  config :: HttpConfigType
  pubsub :: PubSub

definition createClient :: HttpClient where
  "createClient = \<lparr> commonHeader = [], inited = False, config = emptyObject, pubsub = [] \<rparr>"

fun setProp :: "jsstring \<Rightarrow> jsval \<Rightarrow> (jsstring \<times> jsval) list \<Rightarrow> (jsstring \<times> jsval) list" where
  "setProp k v [] = [(k, v)]"
| "setProp k v ((k', v') # rest) =
     (if k' = k then (k, v) # rest else (k', v') # setProp k v rest)"

definition setCommonHeader :: "jsstring \<Rightarrow> jsval \<Rightarrow> HttpClient \<Rightarrow> HttpClient" where
  "setCommonHeader key v client = client\<lparr>commonHeader := setProp key v (commonHeader client)\<rparr>"

definition getHeader :: "HttpClient \<Rightarrow> (jsstring \<times> jsval) list option \<Rightarrow> (jsstring \<times> jsval) list" where
  "getHeader client h =
     foldl (\<lambda>acc (k, v). setProp k v acc) (commonHeader client)
       (case h of None \<Rightarrow> [] | Some kvs \<Rightarrow> kvs)"

definition init :: "Deps \<Rightarrow> HttpConfigType \<Rightarrow> HttpClient \<Rightarrow> HttpClient" where
  "init K cfg client =
     (if inited client then client
      else client\<lparr>config := spread (HTTP_DEFAULT_CONFIG K) cfg, inited := True\<rparr>)"

text \<open>
  \<open>listen\<close> registers one closure per member of \<open>HttpErrorCodeType\<close> and returns
  \<open>this._pubsub.clear\<close>: the function \<open>clear\<close> taken off the bus, without its receiver.
  Called later, it clears the bus of the client when \<open>clear\<close> works without a receiver;
  when \<open>clear\<close> is an ordinary method, \<open>this\<close> is \<open>undefined\<close> in it (module code is
  strict) and the call raises a \<open>TypeError\<close>.
\<close>

definition HttpErrorCodeType_keys :: "HttpErrorCodeType list" where
  "HttpErrorCodeType_keys = [Server, Offline, UnAuth, NotFound]"

definition detached_clear :: "Deps \<Rightarrow> HttpClient \<Rightarrow> thrown + HttpClient" where
  "detached_clear K client =
     (if clear_bound K then Inr (client\<lparr>pubsub := clear (pubsub client)\<rparr>) else Inl TypeError)"

definition listen ::
  "Deps \<Rightarrow> Handle \<Rightarrow> HttpClient \<Rightarrow> HttpClient \<times> (HttpClient \<Rightarrow> thrown + HttpClient)" where
  "listen K handle client =
     (client\<lparr>pubsub :=
         foldl (\<lambda>bus type. on (Some type) (Listener handle type) bus) (pubsub client)
           HttpErrorCodeType_keys\<rparr>,
      detached_clear K)"

text \<open>
  \<open>_handleResponseError\<close>: \<open>errorType\<close> starts \<open>undefined\<close>, the four tests assign it in
  the order of the source, and \<open>emit\<close> is called in every case.
\<close>

definition handleResponseError ::
  "HttpResponseError \<Rightarrow> HttpRequestOptionsType \<Rightarrow> HttpClient \<Rightarrow> World \<Rightarrow> thrown option \<times> World" where
  "handleResponseError err options client w =
     (let status = status err;
          errorType = None;
          errorType = (if status \<ge> 500 then Some Server else errorType);
          errorType = (if status = 0 then Some Offline else errorType);
          errorType = (if status = 401 then Some UnAuth else errorType);
          errorType = (if status = 404 then Some NotFound else errorType)
      in emit (pubsub client) errorType err options w)"

text \<open>
  The operations that change the client, and a run of them from a state. A call of the
  function \<open>listen\<close> returned that raises leaves the client as it is.
\<close>

datatype Op =
    Init HttpConfigType
  | SetCommonHeader jsstring jsval
  | Listen Handle
  | Unsubscribe

fun apply_op :: "Deps \<Rightarrow> Op \<Rightarrow> HttpClient \<Rightarrow> HttpClient" where
  "apply_op K (Init cfg) client = init K cfg client"
| "apply_op K (SetCommonHeader key v) client = setCommonHeader key v client"
| "apply_op K (Listen handle) client = fst (listen K handle client)"
| "apply_op K Unsubscribe client =
     (case snd (listen K (Handle 0 (\<lambda>type err options. None)) client) client of
        Inl e \<Rightarrow> client
      | Inr client' \<Rightarrow> client')"

fun run :: "Deps \<Rightarrow> Op list \<Rightarrow> HttpClient \<Rightarrow> HttpClient" where
  "run K [] client = client"
| "run K (op # ops) client = run K ops (apply_op K op client)"

subsection \<open>Streams\<close>

text \<open>
  One subscription of an observable is the list of the values it delivers and how it
  ends: it completes, it ends with an error, or it never ends. The operators are those
  of the stream library: \<open>filter\<close> keeps the values that pass, \<open>map\<close> ends the stream with
  the exception its function throws, \<open>catchError\<close> continues an errored stream with the
  stream its selector returns (or ends with the exception the selector throws), and an
  exception thrown by the producer of \<open>new Observable\<close> is the stream's error.
\<close>

datatype Terminal = Complete | Errored thrown | Pending

datatype 'a Stream = Stream (events: "'a list") (terminal: Terminal)

definition filter_op :: "('a \<Rightarrow> bool) \<Rightarrow> 'a Stream \<Rightarrow> 'a Stream" where
  "filter_op p s = Stream (filter p (events s)) (terminal s)"

fun map_events :: "('a \<Rightarrow> thrown + 'b) \<Rightarrow> 'a list \<Rightarrow> 'b list \<times> thrown option" where
  "map_events f [] = ([], None)"
| "map_events f (x # xs) =
     (case f x of
        Inl e \<Rightarrow> ([], Some e)
      | Inr y \<Rightarrow> (case map_events f xs of (ys, r) \<Rightarrow> (y # ys, r)))"

definition map_op :: "('a \<Rightarrow> thrown + 'b) \<Rightarrow> 'a Stream \<Rightarrow> 'b Stream" where
  "map_op f s =
     (case map_events f (events s) of
        (ys, None) \<Rightarrow> Stream ys (terminal s)
      | (ys, Some e) \<Rightarrow> Stream ys (Errored e))"

definition of_op :: "'a \<Rightarrow> 'a Stream" where
  "of_op v = Stream [v] Complete"

definition catchError_op ::
  "(thrown \<Rightarrow> World \<Rightarrow> (thrown + 'a Stream) \<times> World) \<Rightarrow> 'a Stream \<Rightarrow> World \<Rightarrow> 'a Stream \<times> World" where
  "catchError_op selector s w =
     (case terminal s of
        Errored e \<Rightarrow>
          (case selector e w of
             (Inl e', w') \<Rightarrow> (Stream (events s) (Errored e'), w')
           | (Inr s', w') \<Rightarrow> (Stream (events s @ events s') (terminal s'), w'))
      | t \<Rightarrow> (s, w))"

subsection \<open>The request executor\<close>

text \<open>
  The transport is a parameter: what it does with a request is the progress it reports
  and how its promise settles.
\<close>

datatype Progress = Upload ProgressEvent | Download ProgressEvent

datatype Settled = Resolved AxiosResponse | Rejected AxiosError | Unsettled

datatype Outcome = Outcome (ticks: "Progress list") (settled: Settled)

type_synonym Transport = "AxiosRequestConfig \<Rightarrow> Outcome"

fun relay :: "Progress \<Rightarrow> StreamEvent" where
  "relay (Upload progressEvent) = HttpUploadProgressEvent progressEvent"
| "relay (Download progressEvent) = HttpDownloadProgressEvent progressEvent"

text \<open>
  \<open>_request\<close>. The producer throws on a missing url, on an invalid method, and when
  \<open>_convertParam\<close> does; each of these is the error of the stream, and the transport has
  not been called.
\<close>

definition request_exec ::
  "Transport \<Rightarrow> jsstring \<Rightarrow> jsstring \<Rightarrow> HttpRequestOptionsType \<Rightarrow> HttpClient \<Rightarrow> World
     \<Rightarrow> StreamEvent Stream \<times> World" where
  "request_exec net method url options client w =
     (if url = [] then (Stream [] (Errored (JsError (str ''the url is required!''))), w)
      else if \<not> isValidMethod method
      then (Stream [] (Errored (JsError (str ''method '' @ method @ str '' is not valid!''))), w)
      else
        (case (case val (params options) of
                 None \<Rightarrow> Inr None
               | Some p \<Rightarrow> (case convertParam (Some p) of Inl e \<Rightarrow> Inl e | Inr q \<Rightarrow> Inr (Some q))) of
           Inl e \<Rightarrow> (Stream [] (Errored e), w)
         | Inr query \<Rightarrow>
            (let url = getUrl url query;
                 headers = getHeader client (val (header options));
                 cfg = \<lparr> cfg_method = method,
                         cfg_url = url,
                         cfg_baseURL = val (baseUrl options),
                         cfg_data = val (body options),
                         cfg_headers = headers,
                         cfg_withCredentials = (val (withCredentials options) = Some True),
                         cfg_responseType =
                           (case val (responseType options) of
                              None \<Rightarrow> str ''json''
                            | Some t \<Rightarrow> if t = [] then str ''json'' else t),
                         cfg_timeout = (case val (timeout options) of None \<Rightarrow> 0 | Some t \<Rightarrow> t),
                         cfg_validateStatus =
                           (case val (validateStatus (config client)) of
                              None \<Rightarrow> (\<lambda>s. False)
                            | Some f \<Rightarrow> f) \<rparr>;
                 out = net cfg;
                 progress = map relay (ticks out)
             in (case settled out of
                   Resolved response \<Rightarrow> Stream (progress @ [Response response]) Complete
                 | Rejected error \<Rightarrow>
                     Stream progress
                       (Errored (ResponseError (HttpResponseError (Inl error) options)))
                 | Unsettled \<Rightarrow> Stream progress Pending,
                 w\<lparr>issued := issued w @ [cfg]\<rparr>))))"

subsection \<open>The request pipeline\<close>

text \<open>
  A value the stream of \<open>request\<close> delivers: a stream event passed on as it is, or an
  object \<open>{result, response, isSuccess}\<close>, whose \<open>response\<close> is the event on success and
  the error on failure.
\<close>

datatype RequestResult =
  RequestResult jsval "thrown + StreamEvent" bool

datatype Emitted = Raw StreamEvent | Res RequestResult

fun isProgress :: "StreamEvent \<Rightarrow> bool" where
  "isProgress (HttpUploadProgressEvent p) = True"
| "isProgress (HttpDownloadProgressEvent p) = True"
| "isProgress (Response r) = False"

fun event_data :: "StreamEvent \<Rightarrow> jsval" where
  "event_data (Response r) = resp_data r"
| "event_data ev = JUndefined"

fun typeofObject :: "jsval \<Rightarrow> bool" where
  "typeofObject JNull = True"
| "typeofObject (JArr xs) = True"
| "typeofObject (JObj kvs) = True"
| "typeofObject v = False"

definition filterStage :: "HttpRequestOptionsType \<Rightarrow> StreamEvent \<Rightarrow> bool" where
  "filterStage options response =
     (if val (observe options) \<noteq> Some Event then \<not> isProgress response else True)"

definition mapStage :: "Deps \<Rightarrow> HttpRequestOptionsType \<Rightarrow> StreamEvent \<Rightarrow> thrown + Emitted" where
  "mapStage K options response =
     (if val (observe options) = Some Body
      then (let data = event_data response; result = data in
              if val (responseType options) = Some (str ''json'') \<and> typeofObject data
              then (case handleJsonResponse K data response options of
                      Inl e \<Rightarrow> Inl e
                    | Inr (Failure err) \<Rightarrow> Inl (ResponseError err)
                    | Inr (Payload result) \<Rightarrow> Inr (Res (RequestResult result (Inr response) True)))
              else Inr (Res (RequestResult result (Inr response) True)))
      else Inr (Raw response))"

definition failureResult :: "thrown \<Rightarrow> Emitted" where
  "failureResult error = Res (RequestResult JNull (Inl error) False)"

definition recover ::
  "HttpRequestOptionsType \<Rightarrow> HttpClient \<Rightarrow> thrown \<Rightarrow> World \<Rightarrow> (thrown + Emitted Stream) \<times> World" where
  "recover options client error w =
     (case (case error of
              ResponseError err \<Rightarrow> handleResponseError err options client w
            | other \<Rightarrow> (None, w\<lparr>console_error := console_error w @ [error]\<rparr>)) of
        (Some e, w') \<Rightarrow> (Inl e, w')
      | (None, w') \<Rightarrow> (Inr (of_op (failureResult error)), w'))"

definition upstream :: "Deps \<Rightarrow> HttpRequestOptionsType \<Rightarrow> StreamEvent Stream \<Rightarrow> Emitted Stream" where
  "upstream K options src = map_op (mapStage K options) (filter_op (filterStage options) src)"

definition request_pipe ::
  "Deps \<Rightarrow> HttpRequestOptionsType \<Rightarrow> HttpClient \<Rightarrow> StreamEvent Stream \<Rightarrow> World
     \<Rightarrow> Emitted Stream \<times> World" where
  "request_pipe K options client src w =
     catchError_op (recover options client) (upstream K options src) w"

text \<open>
  \<open>request\<close> throws before it builds the stream when the client is not initialised.
  Otherwise it returns the observable: a subscription runs the executor and the pipeline
  on the client and the transport as they are then.
\<close>

type_synonym Observable = "Transport \<Rightarrow> HttpClient \<Rightarrow> World \<Rightarrow> Emitted Stream \<times> World"

definition request ::
  "Deps \<Rightarrow> jsstring \<Rightarrow> jsstring \<Rightarrow> HttpRequestOptionsType \<Rightarrow> HttpClient \<Rightarrow> thrown + Observable" where
  "request K method url options client =
     (if \<not> inited client then Inl (JsError (str ''please call init first''))
      else
        (let config = config client;
             options = spread (spread (HTTP_DEFAULT_REQUEST_OPTION K) config) options
         in Inr (\<lambda>net this w.
                   (case request_exec net method url options this w of
                      (src, w') \<Rightarrow> request_pipe K options this src w'))))"

subsection \<open>The specification's tables and example values\<close>

text \<open>The table of section 4.5 of the specification, as it is written there.\<close>

definition classification :: "int \<Rightarrow> HttpErrorCodeType option" where
  "classification s =
     (if s = 0 then Some Offline
      else if s = 401 then Some UnAuth
      else if s = 404 then Some NotFound
      else if s \<ge> 500 then Some Server
      else None)"

text \<open>The success codes of the options as a list: a scalar is the list of itself.\<close>

definition successCodes :: "HttpRequestOptionsType \<Rightarrow> jsval list" where
  "successCodes options =
     (case val (successCode options) of
        None \<Rightarrow> [JUndefined]
      | Some (JArr cs) \<Rightarrow> cs
      | Some c \<Rightarrow> [c])"

text \<open>
  A string is well formed when every surrogate in it is half of a pair. A primitive can
  be encoded when it is not a Symbol and, if it is a string, is well formed.
\<close>

fun wellFormed :: "jsstring \<Rightarrow> bool" where
  "wellFormed [] = True"
| "wellFormed [c] = (\<not> highSurrogate c \<and> \<not> lowSurrogate c)"
| "wellFormed (c # d # ds) =
     (if highSurrogate c then lowSurrogate d \<and> wellFormed ds
      else \<not> lowSurrogate c \<and> wellFormed (d # ds))"

fun encodable :: "primitive \<Rightarrow> bool" where
  "encodable PSymbol = False"
| "encodable (PStr s) = wellFormed s"
| "encodable v = True"

definition ascii :: "jsstring \<Rightarrow> bool" where
  "ascii s = (\<forall>u \<in> set s. unat u < 128)"

text \<open>The entry \<open>key=value\<close> of the query string, key and value encoded one by one.\<close>

definition entry :: "jsstring \<times> primitive \<Rightarrow> jsstring" where
  "entry kv =
     (case (encodeURIComponent (PStr (fst kv)), encodeURIComponent (snd kv)) of
        (Inr k, Inr x) \<Rightarrow> k @ str ''='' @ x
      | other \<Rightarrow> [])"

text \<open>
  Subscribing to what \<open>request\<close> returned: an exception thrown by \<open>request\<close> itself reaches
  the caller before there is a stream.
\<close>

definition subscribe ::
  "thrown + Observable \<Rightarrow> Transport \<Rightarrow> HttpClient \<Rightarrow> World \<Rightarrow> thrown + Emitted Stream \<times> World" where
  "subscribe r net this w = (case r of Inl e \<Rightarrow> Inl e | Inr obs \<Rightarrow> Inr (obs net this w))"

definition emptyWorld :: World where
  "emptyWorld = \<lparr> console_error = [], invoked = [], issued = [] \<rparr>"

definition noDefaults :: Deps where
  "noDefaults =
     \<lparr> HTTP_DEFAULT_CONFIG = emptyObject, HTTP_DEFAULT_REQUEST_OPTION = emptyObject,
       inherited = (\<lambda>v key. if key = str ''constructor'' then Some (str ''Object'') else None),
       clear_bound = False \<rparr>"

definition someDefaults :: Deps where
  "someDefaults =
     noDefaults\<lparr>HTTP_DEFAULT_CONFIG :=
       emptyObject\<lparr>timeout := Value 5, responseType := Value (str ''text'')\<rparr>\<rparr>"

definition offline :: Transport where
  "offline cfg = Outcome [] (Rejected (AxiosError None))"

definition reporting :: Transport where
  "reporting cfg =
     Outcome [Upload (ProgressEvent 1 2), Download (ProgressEvent 3 4)]
       (Resolved (AxiosResponse (JObj [(str ''code'', JNum (numOfInt 7))]) 200))"

definition quietHandle :: Handle where
  "quietHandle = Handle 1 (\<lambda>type err options. None)"

definition throwingHandle :: Handle where
  "throwingHandle = Handle 2 (\<lambda>type err options. Some (JsError (str ''listener failed'')))"

definition errorWithStatus :: "int \<Rightarrow> HttpResponseError" where
  "errorWithStatus s = HttpResponseError (Inr (Response (AxiosResponse JNull s))) emptyObject"

definition readyClient :: HttpClient where
  "readyClient = init noDefaults emptyObject createClient"

definition codeDataKey :: ResultKey where
  "codeDataKey = \<lparr> code = Some (str ''code''), data = Some (str ''data'') \<rparr>"

section \<open>Properties\<close>

subsection \<open>Query string and URL\<close>

lemma unreserved_not_surrogate:
  "unreserved c \<Longrightarrow> \<not> highSurrogate c \<and> \<not> lowSurrogate c"
  by (auto simp: unreserved_def highSurrogate_def lowSurrogate_def str_def Let_def)

lemma surrogates_disjoint: "highSurrogate c \<Longrightarrow> \<not> lowSurrogate c"
  by (simp add: highSurrogate_def lowSurrogate_def)

lemma encode_wellFormed: "wellFormed s \<Longrightarrow> \<exists>r. encode s = Inr r"
proof (induction s rule: wellFormed.induct)
  case 1
  then show ?case by simp
next
  case (2 c)
  then show ?case by simp
next
  case (3 c d ds)
  show ?case
  proof (cases "highSurrogate c")
    case True
    with "3.prems" have "lowSurrogate d" "wellFormed ds" by simp_all
    with "3.IH"(1) [OF True] obtain r where "encode ds = Inr r" by blast
    with True \<open>lowSurrogate d\<close> show ?thesis
      using unreserved_not_surrogate [of c] surrogates_disjoint [of c] by auto
  next
    case False
    with "3.prems" have nl: "\<not> lowSurrogate c" and "wellFormed (d # ds)" by simp_all
    with "3.IH"(2) [OF False] obtain r where r: "encode (d # ds) = Inr r" by blast
    show ?thesis
    proof (cases "unreserved c")
      case True
      with r show ?thesis by (simp del: encode.simps(2) add: encode.simps(2) [of c "d # ds"])
    next
      case u: False
      with r False nl show ?thesis
        by (simp del: encode.simps(2) add: encode.simps(2) [of c "d # ds"])
    qed
  qed
qed

lemma encode_ill_formed: "\<not> wellFormed s \<Longrightarrow> encode s = Inl URIError"
proof (induction s rule: wellFormed.induct)
  case 1
  then show ?case by simp
next
  case (2 c)
  then show ?case
    using unreserved_not_surrogate [of c] by auto
next
  case (3 c d ds)
  show ?case
  proof (cases "highSurrogate c")
    case True
    then have nu: "\<not> unreserved c" and nl: "\<not> lowSurrogate c"
      using unreserved_not_surrogate [of c] surrogates_disjoint [of c] by auto
    show ?thesis
    proof (cases "lowSurrogate d")
      case l: True
      with "3.prems" True have "\<not> wellFormed ds" by simp
      with "3.IH"(1) [OF True] have "encode ds = Inl URIError" by blast
      with True nu nl l show ?thesis by simp
    next
      case False
      with True nu nl show ?thesis by simp
    qed
  next
    case False
    show ?thesis
    proof (cases "lowSurrogate c")
      case True
      then have "\<not> unreserved c" using unreserved_not_surrogate [of c] by auto
      with True show ?thesis by simp
    next
      case nl: False
      with "3.prems" False have "\<not> wellFormed (d # ds)" by simp
      with "3.IH"(2) [OF False] have r: "encode (d # ds) = Inl URIError" by blast
      show ?thesis
        using r False nl
        by (simp del: encode.simps(2) add: encode.simps(2) [of c "d # ds"])
    qed
  qed
qed

lemma ascii_wellFormed: "ascii s \<Longrightarrow> wellFormed s"
  by (induction s rule: wellFormed.induct)
     (auto simp: ascii_def highSurrogate_def lowSurrogate_def)

lemma ascii_append [simp]: "ascii (a @ b) \<longleftrightarrow> ascii a \<and> ascii b"
  by (auto simp: ascii_def)

lemma ascii_digit: "unat (digit n) < 128"
proof -
  have "digit n \<in> set (str ''0123456789ABCDEF'')"
    unfolding digit_def by (rule nth_mem) (simp add: str_def)
  then show ?thesis by (auto simp: str_def)
qed

lemma ascii_dec: "ascii (dec n)"
proof (induction n rule: dec.induct)
  case (1 n)
  show ?case
  proof (cases "n < 10")
    case True
    then show ?thesis by (subst dec.simps) (simp add: ascii_def ascii_digit)
  next
    case False
    with 1 have "ascii (dec (n div 10))" by simp
    with False show ?thesis
      by (subst dec.simps) (simp add: ascii_def ascii_digit)
  qed
qed

lemma ascii_take: "ascii s \<Longrightarrow> ascii (take n s)"
  by (auto simp: ascii_def dest: in_set_takeD)

lemma ascii_drop: "ascii s \<Longrightarrow> ascii (drop n s)"
  by (auto simp: ascii_def dest: in_set_dropD)

lemma ascii_zeros: "ascii (replicate n (digit 0))"
  by (simp add: ascii_def ascii_digit)

lemma ascii_literals:
  "ascii (str ''.'')" "ascii (str ''0.'')" "ascii (str ''e'')" "ascii (str ''-'')"
  "ascii (str ''+'')" "ascii (str ''NaN'')" "ascii (str ''Infinity'')"
  "ascii (str ''-Infinity'')" "ascii (str ''0'')" "ascii (str ''true'')" "ascii (str ''false'')"
  "ascii (str ''null'')" "ascii (str ''undefined'')" "ascii []"
  by (simp_all add: ascii_def str_def)

lemma ascii_positiveToString: "ascii (positiveToString s n)"
  by (simp add: positiveToString_def Let_def ascii_dec ascii_take ascii_drop ascii_zeros
      ascii_literals)

lemma ascii_numberToString: "ascii (numberToString x)"
  by (cases x) (simp_all add: ascii_positiveToString ascii_literals)

lemma encodable_primToString:
  "encodable v \<Longrightarrow> \<exists>s. primToString v = Inr s \<and> wellFormed s"
  by (cases v)
     (auto simp: ascii_literals ascii_numberToString ascii_dec intro!: ascii_wellFormed)

lemma encodable_encodes: "encodable v \<Longrightarrow> \<exists>r. encodeURIComponent v = Inr r"
  using encodable_primToString [of v] encode_wellFormed
  by (fastforce simp: encodeURIComponent_def)

lemma not_encodable_raises: "\<not> encodable v \<Longrightarrow> \<exists>e. encodeURIComponent v = Inl e"
  by (cases v) (auto simp: encodeURIComponent_def encode_ill_formed)

lemma key_encodes: "wellFormed k \<Longrightarrow> \<exists>r. encodeURIComponent (PStr k) = Inr r"
  using encodable_encodes [of "PStr k"] by simp

lemma entry_encoded:
  "wellFormed k \<Longrightarrow> encodable v \<Longrightarrow>
     \<exists>a b. encodeURIComponent (PStr k) = Inr a \<and> encodeURIComponent v = Inr b
        \<and> entry (k, v) = a @ str ''='' @ b"
  using key_encodes [of k] encodable_encodes [of v] by (auto simp: entry_def)

lemma convertParam_loop_encodable:
  "(\<forall>kv \<in> set kvs. snd kv \<noteq> PUndefined \<longrightarrow> wellFormed (fst kv) \<and> encodable (snd kv)) \<Longrightarrow>
     convertParam_loop kvs array =
       Inr (array @ map entry (filter (\<lambda>kv. snd kv \<noteq> PUndefined) kvs))"
proof (induction kvs array rule: convertParam_loop.induct)
  case (1 array)
  then show ?case by simp
next
  case (2 key v rest array)
  show ?case
  proof (cases "v = PUndefined")
    case True
    with 2 show ?thesis by simp
  next
    case False
    with "2.prems" have "wellFormed key" "encodable v" by auto
    then obtain a b where ab: "encodeURIComponent (PStr key) = Inr a"
      "encodeURIComponent v = Inr b" "entry (key, v) = a @ str ''='' @ b"
      using entry_encoded by blast
    from "2.prems" have "\<forall>kv \<in> set rest. snd kv \<noteq> PUndefined \<longrightarrow>
        wellFormed (fst kv) \<and> encodable (snd kv)" by simp
    with "2.IH"(1) [OF False ab(1) ab(2)] False ab show ?thesis by simp
  qed
qed

lemma convertParam_loop_raises:
  "\<exists>kv \<in> set kvs. snd kv \<noteq> PUndefined \<and> \<not> (wellFormed (fst kv) \<and> encodable (snd kv)) \<Longrightarrow>
     \<exists>e. convertParam_loop kvs array = Inl e"
proof (induction kvs array rule: convertParam_loop.induct)
  case (1 array)
  then show ?case by simp
next
  case (2 key v rest array)
  show ?case
  proof (cases "v = PUndefined")
    case True
    with 2 show ?thesis by auto
  next
    case False
    show ?thesis
    proof (cases "encodeURIComponent (PStr key)")
      case (Inl e)
      with False show ?thesis by simp
    next
      case a: (Inr a)
      show ?thesis
      proof (cases "encodeURIComponent v")
        case (Inl e)
        with False a show ?thesis by simp
      next
        case b: (Inr b)
        have "wellFormed key"
          using a not_encodable_raises [of "PStr key"] by auto
        moreover have "encodable v"
          using b not_encodable_raises [of v] by auto
        ultimately have "\<exists>kv \<in> set rest. snd kv \<noteq> PUndefined
            \<and> \<not> (wellFormed (fst kv) \<and> encodable (snd kv))"
          using "2.prems" by auto
        with "2.IH"(1) [OF False a b] False a b show ?thesis by simp
      qed
    qed
  qed
qed

lemma join_rec:
  "join sep [] = []" "join sep [x] = x" "join sep (x # y # zs) = x @ sep @ join sep (y # zs)"
proof -
  have f: "foldl (\<lambda>acc s. acc @ sep @ s) (a @ b) zs = a @ foldl (\<lambda>acc s. acc @ sep @ s) b zs"
    for a b zs
    by (induction zs arbitrary: b) simp_all
  show "join sep [] = []" "join sep [x] = x" by (simp_all add: join_def)
  show "join sep (x # y # zs) = x @ sep @ join sep (y # zs)"
    using f [of x "sep @ y" zs] f [of sep y zs] by (simp add: join_def)
qed

lemmas enc_defs = convertParam_def join_def encodeURIComponent_def unreserved_def
  lowSurrogate_def highSurrogate_def escape_def utf8_def digit_def str_def numOfInt_def
  positiveToString_def dec.simps stripZeros.simps

lemma convertParam_example:
  "convertParam (Some [(str ''a'', PNum (numOfInt 1)), (str ''b'', PUndefined)]) = Inr (str ''a=1'')"
  by (simp add: enc_defs)

lemma convertParam_example2:
  "convertParam (Some [(str ''q x'', PStr (str ''1&2'')), (str ''n'', PNum (numOfInt (- 120))),
      (str ''u'', PUndefined), (str ''t'', PBool True), ([0xE9], PStr [0xD83D, 0xDE00]),
      (str ''big'', PNum (Decimal False 1 22))])
     = Inr (str ''q%20x=1%262&n=-120&t=true&%C3%A9=%F0%9F%98%80&big=1e%2B21'')"
  by (simp add: enc_defs)

lemma encode_unreserved: "(\<forall>c \<in> set s. unreserved c) \<Longrightarrow> encode s = Inr s"
  by (induction s) simp_all

lemma encode_ascii_reserved:
  "\<not> unreserved c \<Longrightarrow> unat c < 128 \<Longrightarrow>
     encode [c] = Inr (str ''%'' @ [digit (unat c div 16), digit (unat c mod 16)])"
  by (simp add: lowSurrogate_def highSurrogate_def escape_def utf8_def)

lemma replicate_unfold:
  "replicate n x = (if n = 0 then [] else x # replicate (n - 1) x)"
  by (cases n) simp_all

lemma numberToString_examples:
  "numberToString (numOfInt 1) = str ''1''"
  "numberToString (numOfInt (- 120)) = str ''-120''"
  "numberToString (Decimal False 1 22) = str ''1e+21''"
  "numberToString (Decimal False 123456 3) = str ''123.456''"
  "numberToString (Decimal True 15 (- 6)) = str ''-1.5e-7''"
  "numberToString (Decimal False 1 (- 5)) = str ''0.000001''"
  "numberToString (Decimal False 12 21) = str ''120000000000000000000''"
  by (simp_all add: numOfInt_def positiveToString_def digit_def str_def dec.simps
      stripZeros.simps replicate_unfold)

text \<open>
  Claim C8, as amended. An empty or missing mapping gives the empty string. For a flat
  mapping in which no key and no value other than \<open>undefined\<close> holds a lone surrogate or
  is a Symbol, \<open>convertParam\<close> is the \<open>&\<close>-join of the entries \<open>key=value\<close>, key and value
  percent-encoded one by one, over the keys whose value is not \<open>undefined\<close>; a key with
  an \<open>undefined\<close> value contributes nothing, and \<open>convertParam({a:1, b:undefined})\<close> is
  \<open>a=1\<close>. When such a key or value is in the mapping, \<open>convertParam\<close> raises.
\<close>

theorem convertParam_spec:
  "convertParam None = Inr []
   \<and> convertParam (Some []) = Inr []
   \<and> ((\<forall>kv \<in> set kvs. snd kv \<noteq> PUndefined \<longrightarrow> wellFormed (fst kv) \<and> encodable (snd kv)) \<longrightarrow>
        convertParam (Some kvs) =
          Inr (join (str ''&'') (map entry (filter (\<lambda>kv. snd kv \<noteq> PUndefined) kvs))))
   \<and> (wellFormed k \<and> encodable v \<longrightarrow>
        (\<exists>a b. encodeURIComponent (PStr k) = Inr a \<and> encodeURIComponent v = Inr b
           \<and> entry (k, v) = a @ str ''='' @ b))
   \<and> ((\<exists>kv \<in> set kvs. snd kv \<noteq> PUndefined \<and> \<not> (wellFormed (fst kv) \<and> encodable (snd kv))) \<longrightarrow>
        (\<exists>e. convertParam (Some kvs) = Inl e))
   \<and> join sep [] = [] \<and> join sep [x] = x \<and> join sep (x # y # zs) = x @ sep @ join sep (y # zs)
   \<and> convertParam (Some [(str ''a'', PNum (numOfInt 1)), (str ''b'', PUndefined)])
       = Inr (str ''a=1'')
   \<and> convertParam (Some [(str ''q x'', PStr (str ''1&2'')), (str ''n'', PNum (numOfInt (- 120))),
          (str ''u'', PUndefined), (str ''t'', PBool True), ([0xE9], PStr [0xD83D, 0xDE00]),
          (str ''big'', PNum (Decimal False 1 22))])
       = Inr (str ''q%20x=1%262&n=-120&t=true&%C3%A9=%F0%9F%98%80&big=1e%2B21'')"
proof -
  have a: "convertParam None = Inr []" "convertParam (Some []) = Inr []"
    by (simp_all add: convertParam_def join_def)
  have b: "convertParam (Some kvs) =
          Inr (join (str ''&'') (map entry (filter (\<lambda>kv. snd kv \<noteq> PUndefined) kvs)))"
    if "\<forall>kv \<in> set kvs. snd kv \<noteq> PUndefined \<longrightarrow> wellFormed (fst kv) \<and> encodable (snd kv)"
    using convertParam_loop_encodable [OF that, of "[]"] by (simp add: convertParam_def)
  have c: "\<exists>e. convertParam (Some kvs) = Inl e"
    if "\<exists>kv \<in> set kvs. snd kv \<noteq> PUndefined \<and> \<not> (wellFormed (fst kv) \<and> encodable (snd kv))"
    using convertParam_loop_raises [OF that, of "[]"] by (auto simp: convertParam_def)
  show ?thesis
    using a b c entry_encoded [of k v] join_rec convertParam_example
      convertParam_example2
    by blast
qed

theorem convertParam_spec_witness:
  "convertParam (Some [(str ''k'', PStr (str ''v w'')), (str ''x'', PUndefined),
      (str ''n'', PNull)]) = Inr (str ''k=v%20w&n=null'')"
proof -
  let ?kvs = "[(str ''k'', PStr (str ''v w'')), (str ''x'', PUndefined), (str ''n'', PNull)]"
  have h: "\<forall>kv \<in> set ?kvs. snd kv \<noteq> PUndefined \<longrightarrow> wellFormed (fst kv) \<and> encodable (snd kv)"
    by (simp add: str_def highSurrogate_def lowSurrogate_def)
  have e: "join (str ''&'') (map entry (filter (\<lambda>kv. snd kv \<noteq> PUndefined) ?kvs))
      = str ''k=v%20w&n=null''"
    by (simp add: entry_def enc_defs)
  show ?thesis
    using convertParam_spec [where kvs = ?kvs] h e by simp
qed

text \<open>A value with a lone surrogate: \<open>convertParam\<close> raises \<open>URIError\<close>.\<close>

theorem convertParam_lone_surrogate:
  "convertParam (Some [(str ''a'', PStr [0xD800])]) = Inl URIError"
  by (simp add: enc_defs)

lemma endsWithQuestionMark_iff: "endsWithQuestionMark url \<longleftrightarrow> (\<exists>u. url = u @ str ''?'')"
  unfolding endsWithQuestionMark_def
  by (cases url rule: rev_cases) (auto simp: str_def)

text \<open>
  Claim C9. \<open>getUrl\<close> returns the url unchanged when the query string is empty (or
  missing); when the url ends in \<open>?\<close> it appends the query string directly; otherwise it
  puts a \<open>?\<close> between the two. The three examples of the specification hold.
\<close>

theorem getUrl_spec:
  "getUrl url None = url
   \<and> getUrl url (Some []) = url
   \<and> getUrl url (Some (q # qs)) =
       (if \<exists>u. url = u @ str ''?'' then url @ q # qs else url @ str ''?'' @ q # qs)
   \<and> getUrl (str ''https://x/y?'') (Some (str ''a=1'')) = str ''https://x/y?a=1''
   \<and> getUrl (str ''https://x/y'') (Some (str ''a=1'')) = str ''https://x/y?a=1''
   \<and> getUrl (str ''https://x/y'') (Some []) = str ''https://x/y''"
proof -
  have "getUrl (str ''https://x/y?'') (Some (str ''a=1'')) = str ''https://x/y?a=1''"
    "getUrl (str ''https://x/y'') (Some (str ''a=1'')) = str ''https://x/y?a=1''"
    by (simp_all add: getUrl_def endsWithQuestionMark_def str_def)
  then show ?thesis
    by (simp add: getUrl_def endsWithQuestionMark_iff)
qed

subsection \<open>The executor's checks\<close>

text \<open>
  Claim C4. With an empty url the executor's stream ends with the error
  \<open>the url is required!\<close>; with a url and a method outside the allow-list it ends with
  \<open>method ... is not valid!\<close>; in both cases nothing is handed to the transport. Nothing
  is handed over either when the query string cannot be built, whereas a request that
  passes the checks and whose query string is built hands over exactly one.
\<close>

theorem request_exec_rejects_before_transport:
  "(url = [] \<longrightarrow>
      request_exec net method url options client w =
        (Stream [] (Errored (JsError (str ''the url is required!''))), w))
   \<and> (url \<noteq> [] \<and> method \<notin> set (map str [''delete'', ''get'', ''head'', ''options'', ''patch'',
          ''post'', ''put'', ''jsonp'']) \<longrightarrow>
      request_exec net method url options client w =
        (Stream [] (Errored (JsError (str ''method '' @ method @ str '' is not valid!''))), w))
   \<and> (url = [] \<or> \<not> isValidMethod method \<longrightarrow>
        issued (snd (request_exec net method url options client w)) = issued w)
   \<and> (url \<noteq> [] \<and> isValidMethod method
        \<and> (\<forall>p e. val (params options) = Some p \<longrightarrow> convertParam (Some p) \<noteq> Inl e) \<longrightarrow>
        length (issued (snd (request_exec net method url options client w)))
          = Suc (length (issued w)))
   \<and> (\<forall>p e. val (params options) = Some p \<and> convertParam (Some p) = Inl e \<longrightarrow>
        issued (snd (request_exec net method url options client w)) = issued w)"
  by (auto simp: request_exec_def isValidMethod_def Let_def split: option.splits sum.splits)

theorem request_exec_rejects_before_transport_witness:
  "request_exec offline (str ''fetch'') (str ''/users'') emptyObject createClient emptyWorld =
     (Stream [] (Errored (JsError (str ''method fetch is not valid!''))), emptyWorld)
   \<and> request_exec offline (str ''get'') [] emptyObject createClient emptyWorld =
       (Stream [] (Errored (JsError (str ''the url is required!''))), emptyWorld)
   \<and> length (issued (snd (request_exec offline (str ''get'') (str ''/users'') emptyObject
        createClient emptyWorld))) = 1"
proof -
  have v: "isValidMethod (str ''get'')" "\<not> isValidMethod (str ''fetch'')"
    "str ''fetch'' \<notin> set (map str [''delete'', ''get'', ''head'', ''options'', ''patch'',
          ''post'', ''put'', ''jsonp''])" "str ''/users'' \<noteq> []"
    by (simp_all add: isValidMethod_def str_def)
  have p: "val (params emptyObject) = None" by (simp add: emptyObject_def)
  have m: "str ''method '' @ str ''fetch'' @ str '' is not valid!'' = str ''method fetch is not valid!''"
    by (simp add: str_def)
  have "request_exec offline (str ''fetch'') (str ''/users'') emptyObject createClient emptyWorld =
     (Stream [] (Errored (JsError (str ''method fetch is not valid!''))), emptyWorld)"
    using request_exec_rejects_before_transport
          [of "str ''/users''" offline "str ''fetch''" emptyObject createClient emptyWorld] v
    by (simp only: m) blast
  moreover have "request_exec offline (str ''get'') [] emptyObject createClient emptyWorld =
       (Stream [] (Errored (JsError (str ''the url is required!''))), emptyWorld)"
    using request_exec_rejects_before_transport
          [of "[]" offline "str ''get''" emptyObject createClient emptyWorld]
    by blast
  moreover have "length (issued (snd (request_exec offline (str ''get'') (str ''/users'')
        emptyObject createClient emptyWorld))) = 1"
    using request_exec_rejects_before_transport
          [of "str ''/users''" offline "str ''get''" emptyObject createClient emptyWorld] v p
    by (simp add: emptyWorld_def)
  ultimately show ?thesis by blast
qed

subsection \<open>Initialisation\<close>

lemma apply_op_keeps_init:
  "inited c \<Longrightarrow> inited (apply_op K op c) \<and> config (apply_op K op c) = config c"
  by (cases op)
     (simp_all add: init_def setCommonHeader_def listen_def detached_clear_def)

lemma run_keeps_init:
  "inited c \<Longrightarrow> inited (run K ops c) \<and> config (run K ops c) = config c"
proof (induction ops arbitrary: c)
  case Nil
  then show ?case by simp
next
  case (Cons op ops)
  from Cons.prems have "inited (apply_op K op c)" "config (apply_op K op c) = config c"
    using apply_op_keeps_init by blast+
  with Cons.IH [of "apply_op K op c"] show ?case by simp
qed

lemma override_cases: "override a b = (if b = Absent then a else b)"
  by (cases b) (simp_all add: override_def)

text \<open>
  Claim C5. The first \<open>init\<close> of a client that is not initialised marks it initialised
  and stores the merged configuration: every property is the argument's when the
  argument has it (also with the value \<open>undefined\<close>), and the default's otherwise; the
  headers and the bus are untouched. \<open>init\<close> on an initialised client returns it as it
  is, whatever the argument; and no run of \<open>init\<close>, \<open>setCommonHeader\<close>, \<open>listen\<close> and
  unsubscribing makes the client uninitialised again or changes the configuration of
  the first call.
\<close>

theorem init_idempotent_one_way:
  "(\<not> inited c \<longrightarrow>
      inited (init K cfg c)
      \<and> commonHeader (init K cfg c) = commonHeader c \<and> pubsub (init K cfg c) = pubsub c
      \<and> params (config (init K cfg c))
          = (if params cfg = Absent then params (HTTP_DEFAULT_CONFIG K) else params cfg)
      \<and> header (config (init K cfg c))
          = (if header cfg = Absent then header (HTTP_DEFAULT_CONFIG K) else header cfg)
      \<and> baseUrl (config (init K cfg c))
          = (if baseUrl cfg = Absent then baseUrl (HTTP_DEFAULT_CONFIG K) else baseUrl cfg)
      \<and> body (config (init K cfg c))
          = (if body cfg = Absent then body (HTTP_DEFAULT_CONFIG K) else body cfg)
      \<and> withCredentials (config (init K cfg c))
          = (if withCredentials cfg = Absent then withCredentials (HTTP_DEFAULT_CONFIG K)
             else withCredentials cfg)
      \<and> responseType (config (init K cfg c))
          = (if responseType cfg = Absent then responseType (HTTP_DEFAULT_CONFIG K)
             else responseType cfg)
      \<and> timeout (config (init K cfg c))
          = (if timeout cfg = Absent then timeout (HTTP_DEFAULT_CONFIG K) else timeout cfg)
      \<and> observe (config (init K cfg c))
          = (if observe cfg = Absent then observe (HTTP_DEFAULT_CONFIG K) else observe cfg)
      \<and> responseResultKey (config (init K cfg c))
          = (if responseResultKey cfg = Absent then responseResultKey (HTTP_DEFAULT_CONFIG K)
             else responseResultKey cfg)
      \<and> successCode (config (init K cfg c))
          = (if successCode cfg = Absent then successCode (HTTP_DEFAULT_CONFIG K)
             else successCode cfg)
      \<and> validateStatus (config (init K cfg c))
          = (if validateStatus cfg = Absent then validateStatus (HTTP_DEFAULT_CONFIG K)
             else validateStatus cfg))
   \<and> (inited c \<longrightarrow> init K cfg c = c)
   \<and> init K cfg' (init K cfg c) = init K cfg c
   \<and> inited (run K ops (init K cfg c))
   \<and> config (run K ops (init K cfg c)) = config (init K cfg c)"
proof -
  have i: "inited (init K cfg c)" by (simp add: init_def)
  have "init K cfg' (init K cfg c) = init K cfg c"
    using i by (simp add: init_def)
  then show ?thesis
    using run_keeps_init [OF i, of K ops]
    by (simp add: init_def spread_def override_cases)
qed

theorem init_idempotent_one_way_witness:
  "config (init someDefaults (emptyObject\<lparr>timeout := Value 9\<rparr>)
     (init someDefaults (emptyObject\<lparr>timeout := Undefined, successCode := Value JNull\<rparr>)
        createClient))
     = emptyObject\<lparr>timeout := Undefined, responseType := Value (str ''text''),
         successCode := Value JNull\<rparr>
   \<and> config (run someDefaults [Init (emptyObject\<lparr>timeout := Value 9\<rparr>), Listen quietHandle,
                Unsubscribe]
        (init someDefaults (emptyObject\<lparr>timeout := Undefined, successCode := Value JNull\<rparr>)
           createClient))
     = emptyObject\<lparr>timeout := Undefined, responseType := Value (str ''text''),
         successCode := Value JNull\<rparr>"
proof -
  let ?cfg = "emptyObject\<lparr>timeout := Undefined, successCode := Value JNull\<rparr>"
  let ?cfg' = "emptyObject\<lparr>timeout := Value 9\<rparr>"
  let ?ops = "[Init ?cfg', Listen quietHandle, Unsubscribe]"
  note t = init_idempotent_one_way
          [where c = createClient and K = someDefaults and cfg = ?cfg and cfg' = ?cfg'
             and ops = ?ops]
  have n: "\<not> inited createClient" by (simp add: createClient_def)
  have d: "HTTP_DEFAULT_CONFIG someDefaults
      = emptyObject\<lparr>timeout := Value 5, responseType := Value (str ''text'')\<rparr>"
    by (simp add: someDefaults_def)
  have c: "config (init someDefaults ?cfg createClient)
      = emptyObject\<lparr>timeout := Undefined, responseType := Value (str ''text''),
         successCode := Value JNull\<rparr>"
    using t n by (simp add: d emptyObject_def)
  from t have "init someDefaults ?cfg' (init someDefaults ?cfg createClient)
      = init someDefaults ?cfg createClient"
    and "config (run someDefaults ?ops (init someDefaults ?cfg createClient))
      = config (init someDefaults ?cfg createClient)"
    by blast+
  with c show ?thesis by simp
qed

subsection \<open>The bus and the classifier\<close>

text \<open>
  What \<open>listen\<close> returns is \<open>clear\<close> without its receiver. Whether a call of it empties
  the bus is decided by \<open>clear\<close> of \<open>./pubsub\<close>: it does when \<open>clear\<close> works without a
  receiver, and it raises, leaving every registration in place, when \<open>clear\<close> is an
  ordinary method.
\<close>

lemma listen_returns_detached_clear:
  "(clear_bound K \<longrightarrow>
      (\<exists>c''. snd (listen K h c) c' = Inr c'' \<and> pubsub c'' = []))
   \<and> (\<not> clear_bound K \<longrightarrow> snd (listen K h c) c' = Inl TypeError)"
  by (simp add: listen_def detached_clear_def clear_def)

lemma emit_empty: "emit [] topic err options w = (None, w)"
  by (simp add: emit_def)

lemma handleResponseError_emit:
  "handleResponseError err options client w =
     emit (pubsub client) (classification (status err)) err options w"
  unfolding handleResponseError_def by (simp add: classification_def Let_def)

lemma apply_op_topics:
  "None \<notin> fst ` set (pubsub c) \<Longrightarrow> None \<notin> fst ` set (pubsub (apply_op K op c))"
  by (cases op)
     (auto simp: init_def setCommonHeader_def listen_def detached_clear_def clear_def on_def
        HttpErrorCodeType_keys_def)

lemma run_topics:
  "None \<notin> fst ` set (pubsub c) \<Longrightarrow> None \<notin> fst ` set (pubsub (run K ops c))"
  by (induction ops arbitrary: c) (simp_all add: apply_op_topics)

lemma emit_undefined_topic:
  "None \<notin> fst ` set bus \<Longrightarrow> emit bus None err options w = (None, w)"
proof -
  assume "None \<notin> fst ` set bus"
  then have "filter (\<lambda>(t, l). t = None) bus = []"
    by (induction bus) auto
  then show ?thesis by (simp add: emit_def)
qed

lemma listen_bus:
  "pubsub (fst (listen K h c)) =
     pubsub c @ [(Some Server, Listener h Server), (Some Offline, Listener h Offline),
                 (Some UnAuth, Listener h UnAuth), (Some NotFound, Listener h NotFound)]"
  by (simp add: listen_def on_def HttpErrorCodeType_keys_def)

text \<open>
  Claim C2. The classifier emits under the topic the table gives for the error's status:
  \<open>Offline\<close> for 0, \<open>UnAuth\<close> for 401, \<open>NotFound\<close> for 404, \<open>Server\<close> from 500 on, and
  the arguments of the emission are the error and the options. A status outside the
  table has no classification: the emission is under the \<open>undefined\<close> topic, and on a
  client in any state reachable from a new one no handler is called and nothing is
  thrown. For a status of the table, a handler registered with \<open>listen\<close> is called once,
  with the classification, the error and the options.
\<close>

theorem handleResponseError_classifies:
  "handleResponseError err options client w =
     emit (pubsub client) (classification (status err)) err options w
   \<and> (classification (status err) = None \<longleftrightarrow> status err \<notin> {0, 401, 404} \<and> status err < 500)
   \<and> (status err \<notin> {0, 401, 404} \<and> status err < 500 \<longrightarrow>
        handleResponseError err options (run K ops createClient) w = (None, w))
   \<and> (classification (status err) = Some c \<longrightarrow>
        handleResponseError err options (fst (listen K h createClient)) w =
          (outcome h c err options, w\<lparr>invoked := invoked w @ [(hid h, c, err, options)]\<rparr>))"
proof -
  have a: "handleResponseError err options client w =
     emit (pubsub client) (classification (status err)) err options w" for client
    by (rule handleResponseError_emit)
  have b: "classification (status err) = None \<longleftrightarrow> status err \<notin> {0, 401, 404} \<and> status err < 500"
    by (simp add: classification_def)
  have "None \<notin> fst ` set (pubsub (run K ops createClient))"
    by (rule run_topics) (simp add: createClient_def)
  then have c: "emit (pubsub (run K ops createClient)) None err options w = (None, w)"
    by (rule emit_undefined_topic)
  have d: "emit (pubsub (fst (listen K h createClient))) (Some c) err options w =
      (outcome h c err options, w\<lparr>invoked := invoked w @ [(hid h, c, err, options)]\<rparr>)"
    by (cases c; cases "outcome h c err options")
       (simp_all add: listen_bus createClient_def emit_def)
  show ?thesis
    using b c d by (auto simp: a)
qed

theorem handleResponseError_classifies_witness:
  "handleResponseError (errorWithStatus 418) emptyObject
     (run noDefaults [Listen quietHandle] createClient) emptyWorld = (None, emptyWorld)
   \<and> handleResponseError (errorWithStatus 0) emptyObject
       (fst (listen noDefaults quietHandle createClient)) emptyWorld
       = (None, emptyWorld\<lparr>invoked := [(1, Offline, errorWithStatus 0, emptyObject)]\<rparr>)
   \<and> handleResponseError (errorWithStatus 401) emptyObject
       (fst (listen noDefaults quietHandle createClient)) emptyWorld
       = (None, emptyWorld\<lparr>invoked := [(1, UnAuth, errorWithStatus 401, emptyObject)]\<rparr>)
   \<and> handleResponseError (errorWithStatus 404) emptyObject
       (fst (listen noDefaults quietHandle createClient)) emptyWorld
       = (None, emptyWorld\<lparr>invoked := [(1, NotFound, errorWithStatus 404, emptyObject)]\<rparr>)
   \<and> handleResponseError (errorWithStatus 503) emptyObject
       (fst (listen noDefaults quietHandle createClient)) emptyWorld
       = (None, emptyWorld\<lparr>invoked := [(1, Server, errorWithStatus 503, emptyObject)]\<rparr>)"
proof -
  have s: "status (errorWithStatus n) = n" for n
    by (simp add: errorWithStatus_def)
  have q: "outcome quietHandle c e opts = None" "hid quietHandle = 1" for c e opts
    by (simp_all add: quietHandle_def)
  have i: "invoked emptyWorld = []"
    by (simp add: emptyWorld_def)
  have "handleResponseError (errorWithStatus 418) emptyObject
     (run noDefaults [Listen quietHandle] createClient) emptyWorld = (None, emptyWorld)"
    using handleResponseError_classifies
          [where err = "errorWithStatus 418" and options = emptyObject and K = noDefaults
             and ops = "[Listen quietHandle]" and w = emptyWorld and client = createClient]
    by (simp add: s)
  moreover have "handleResponseError (errorWithStatus 0) emptyObject
       (fst (listen noDefaults quietHandle createClient)) emptyWorld
       = (None, emptyWorld\<lparr>invoked := [(1, Offline, errorWithStatus 0, emptyObject)]\<rparr>)"
    using handleResponseError_classifies
          [where err = "errorWithStatus 0" and options = emptyObject and c = Offline
             and h = quietHandle and w = emptyWorld and client = createClient
             and K = noDefaults]
    by (simp add: s q i classification_def)
  moreover have "handleResponseError (errorWithStatus 401) emptyObject
       (fst (listen noDefaults quietHandle createClient)) emptyWorld
       = (None, emptyWorld\<lparr>invoked := [(1, UnAuth, errorWithStatus 401, emptyObject)]\<rparr>)"
    using handleResponseError_classifies
          [where err = "errorWithStatus 401" and options = emptyObject and c = UnAuth
             and h = quietHandle and w = emptyWorld and client = createClient
             and K = noDefaults]
    by (simp add: s q i classification_def)
  moreover have "handleResponseError (errorWithStatus 404) emptyObject
       (fst (listen noDefaults quietHandle createClient)) emptyWorld
       = (None, emptyWorld\<lparr>invoked := [(1, NotFound, errorWithStatus 404, emptyObject)]\<rparr>)"
    using handleResponseError_classifies
          [where err = "errorWithStatus 404" and options = emptyObject and c = NotFound
             and h = quietHandle and w = emptyWorld and client = createClient
             and K = noDefaults]
    by (simp add: s q i classification_def)
  moreover have "handleResponseError (errorWithStatus 503) emptyObject
       (fst (listen noDefaults quietHandle createClient)) emptyWorld
       = (None, emptyWorld\<lparr>invoked := [(1, Server, errorWithStatus 503, emptyObject)]\<rparr>)"
    using handleResponseError_classifies
          [where err = "errorWithStatus 503" and options = emptyObject and c = Server
             and h = quietHandle and w = emptyWorld and client = createClient
             and K = noDefaults]
    by (simp add: s q i classification_def)
  ultimately show ?thesis by blast
qed

subsection \<open>The response interpreter\<close>

lemma indexOf_from_found:
  "0 \<le> i \<Longrightarrow> indexOf_from i xs v \<noteq> - 1 \<longleftrightarrow> (\<exists>c \<in> set xs. strictEquals c v)"
proof (induction xs arbitrary: i)
  case Nil
  then show ?case by simp
next
  case (Cons x xs)
  from Cons.prems have "0 \<le> i + 1" by simp
  from Cons.IH [OF this] Cons.prems show ?case by auto
qed

lemma indexOf_found: "indexOf xs v \<noteq> - 1 \<longleftrightarrow> (\<exists>c \<in> set xs. strictEquals c v)"
  by (simp add: indexOf_def indexOf_from_found)

lemma normalised_codes:
  "(case (case val (successCode options) of None \<Rightarrow> JUndefined | Some c \<Rightarrow> c) of
      JArr cs \<Rightarrow> cs | c \<Rightarrow> [c]) = successCodes options"
  by (simp add: successCodes_def split: option.splits jsval.splits)

text \<open>
  Claim C3, as amended. For every json body, response and options whose
  \<open>responseResultKey\<close> is present: the interpreter returns, and does not throw; it
  returns the value of the field named by \<open>data\<close> when json is truthy, the field named by
  \<open>code\<close> is defined on it and strictly equals one of the success codes (a scalar
  success code counting as the list of itself), and in every other case a response
  error wrapping the response and the options.
\<close>

theorem handleJsonResponse_spec:
  assumes "responseResultKey options = Value rk"
  shows "handleJsonResponse K json response options =
     Inr (if truthy json \<and> getProp K json (propertyKey (code rk)) \<noteq> JUndefined
             \<and> (\<exists>c \<in> set (successCodes options).
                    strictEquals c (getProp K json (propertyKey (code rk))))
          then Payload (getProp K json (propertyKey (data rk)))
          else Failure (HttpResponseError (Inr response) options))"
  using assms
  by (simp add: handleJsonResponse_def Let_def normalised_codes indexOf_found)

lemmas prop_defs = getProp_def propertyKey_def successCodes_def codeDataKey_def emptyObject_def
  str_def numOfInt_def dec.simps stripZeros.simps digit_def

theorem handleJsonResponse_spec_witness:
  "handleJsonResponse noDefaults
     (JObj [(str ''code'', JNum (numOfInt 0)), (str ''data'', JObj [(str ''v'', JNum (numOfInt 1))])])
     (Response (AxiosResponse JNull 200))
     (emptyObject\<lparr>responseResultKey := Value codeDataKey, successCode := Value (JNum (numOfInt 0))\<rparr>)
     = Inr (Payload (JObj [(str ''v'', JNum (numOfInt 1))]))
   \<and> handleJsonResponse noDefaults (JObj [(str ''code'', JNum (numOfInt 1))])
     (Response (AxiosResponse JNull 200))
     (emptyObject\<lparr>responseResultKey := Value codeDataKey, successCode := Value (JNum (numOfInt 0))\<rparr>)
     = Inr (Failure (HttpResponseError (Inr (Response (AxiosResponse JNull 200)))
         (emptyObject\<lparr>responseResultKey := Value codeDataKey,
            successCode := Value (JNum (numOfInt 0))\<rparr>)))
   \<and> handleJsonResponse noDefaults (JObj [(str ''code'', JStr (str ''ok''))])
     (Response (AxiosResponse JNull 200))
     (emptyObject\<lparr>responseResultKey := Value \<lparr>code = Some (str ''code''), data = Some (str ''constructor'')\<rparr>,
        successCode := Value (JArr [JNum (numOfInt 0), JStr (str ''ok'')])\<rparr>)
     = Inr (Payload (JBuiltin (str ''Object'')))
   \<and> handleJsonResponse noDefaults JNull (Response (AxiosResponse JNull 200))
     (emptyObject\<lparr>responseResultKey := Value codeDataKey, successCode := Value (JNum (numOfInt 0))\<rparr>)
     = Inr (Failure (HttpResponseError (Inr (Response (AxiosResponse JNull 200)))
         (emptyObject\<lparr>responseResultKey := Value codeDataKey,
            successCode := Value (JNum (numOfInt 0))\<rparr>)))"
proof -
  let ?o = "emptyObject\<lparr>responseResultKey := Value codeDataKey,
              successCode := Value (JNum (numOfInt 0))\<rparr>"
  let ?o' = "emptyObject\<lparr>responseResultKey :=
                Value \<lparr>code = Some (str ''code''), data = Some (str ''constructor'')\<rparr>,
              successCode := Value (JArr [JNum (numOfInt 0), JStr (str ''ok'')])\<rparr>"
  have k: "responseResultKey ?o = Value codeDataKey"
    "responseResultKey ?o' = Value \<lparr>code = Some (str ''code''), data = Some (str ''constructor'')\<rparr>"
    by simp_all
  show ?thesis
    using handleJsonResponse_spec [OF k(1), of noDefaults
            "JObj [(str ''code'', JNum (numOfInt 0)), (str ''data'', JObj [(str ''v'', JNum (numOfInt 1))])]"
            "Response (AxiosResponse JNull 200)"]
          handleJsonResponse_spec [OF k(1), of noDefaults "JObj [(str ''code'', JNum (numOfInt 1))]"
            "Response (AxiosResponse JNull 200)"]
          handleJsonResponse_spec [OF k(2), of noDefaults "JObj [(str ''code'', JStr (str ''ok''))]"
            "Response (AxiosResponse JNull 200)"]
          handleJsonResponse_spec [OF k(1), of noDefaults JNull "Response (AxiosResponse JNull 200)"]
    by (simp add: prop_defs noDefaults_def)
qed

text \<open>
  Without \<open>responseResultKey\<close> in the options the interpreter throws on the body of the
  specification's own example.
\<close>

theorem handleJsonResponse_throws_without_key:
  "handleJsonResponse noDefaults
     (JObj [(str ''code'', JNum (numOfInt 0)), (str ''data'', JObj [(str ''v'', JNum (numOfInt 1))])])
     (Response (AxiosResponse
        (JObj [(str ''code'', JNum (numOfInt 0)), (str ''data'', JObj [(str ''v'', JNum (numOfInt 1))])])
        200))
     (emptyObject\<lparr>successCode := Value (JNum (numOfInt 0))\<rparr>)
     = Inl TypeError"
  by (simp add: handleJsonResponse_def emptyObject_def)

lemma handleJsonResponse_without_key:
  "val (responseResultKey options) = None \<Longrightarrow>
     handleJsonResponse K json response options = Inl TypeError"
  by (simp add: handleJsonResponse_def)

subsection \<open>Error recovery in the request pipeline\<close>

lemma call_all_quiet:
  "(\<And>h ty. Listener h ty \<in> set ls \<Longrightarrow> outcome h ty err options = None)
     \<Longrightarrow> fst (call_all ls err options w) = None"
proof (induction ls arbitrary: w)
  case Nil
  then show ?case by simp
next
  case (Cons l ls)
  obtain h ty where l: "l = Listener h ty" by (cases l)
  have "outcome h ty err options = None"
    using Cons.prems [of h ty] l by simp
  moreover have "fst (call_all ls err options w') = None" for w'
    using Cons.IH Cons.prems by simp
  ultimately show ?case by (simp add: l)
qed

lemma emit_quiet:
  assumes "\<And>topic h ty. (topic, Listener h ty) \<in> set bus \<Longrightarrow> outcome h ty err options = None"
  shows "fst (emit bus t err options w) = None"
  unfolding emit_def
proof (rule call_all_quiet)
  fix h ty
  assume "Listener h ty \<in> set (map snd (filter (\<lambda>(t', l). t' = t) bus))"
  then have "(t, Listener h ty) \<in> set bus" by auto
  then show "outcome h ty err options = None" by (rule assms)
qed

lemma recover_response_error:
  "recover options client (ResponseError err) w =
     (case handleResponseError err options client w of
        (Some e', w') \<Rightarrow> (Inl e', w')
      | (None, w') \<Rightarrow> (Inr (of_op (failureResult (ResponseError err))), w'))"
  by (simp add: recover_def)

lemma recover_other:
  "\<not> instanceofHttpResponseError e \<Longrightarrow>
     recover options client e w =
       (Inr (of_op (failureResult e)), w\<lparr>console_error := console_error w @ [e]\<rparr>)"
  by (cases e) (simp_all add: recover_def)

lemma request_pipe_errored:
  "terminal (upstream K options src) = Errored e \<Longrightarrow>
     request_pipe K options client src w =
       (case recover options client e w of
          (Inl e', w') \<Rightarrow> (Stream (events (upstream K options src)) (Errored e'), w')
        | (Inr s', w') \<Rightarrow>
            (Stream (events (upstream K options src) @ events s') (terminal s'), w'))"
  by (simp add: request_pipe_def catchError_op_def)

lemma upstream_empty: "upstream K options (Stream [] t) = Stream [] t"
  by (simp add: upstream_def map_op_def filter_op_def)

lemma spread_empty: "spread emptyObject emptyObject = emptyObject"
  by (simp add: spread_def emptyObject_def override_def)

text \<open>
  Claim C1, as amended. Let the stream that reaches \<open>catchError\<close> end with an error.
  If the error is a response error, the pipeline hands it to the classifier, which
  emits on the bus; when no listener throws in that emission the stream is resolved:
  it delivers \<open>{result: null, response: error, isSuccess: false}\<close> and completes; when a
  listener throws, the stream ends with the listener's exception and delivers no
  failure value. If the error is not a response error, it is logged and the stream is
  resolved with the same failure value. So on a client none of whose listeners throws,
  the stream of \<open>request\<close> never ends with an error.
\<close>

theorem request_pipe_resolves_terminal_errors:
  assumes "terminal (upstream K options src) = Errored e"
  shows "(\<forall>err. e = ResponseError err \<and> fst (handleResponseError err options client w) = None \<longrightarrow>
            request_pipe K options client src w =
              (Stream (events (upstream K options src) @ [Res (RequestResult JNull (Inl e) False)])
                 Complete,
               snd (handleResponseError err options client w)))
       \<and> (\<forall>err e'. e = ResponseError err
              \<and> fst (handleResponseError err options client w) = Some e' \<longrightarrow>
            request_pipe K options client src w =
              (Stream (events (upstream K options src)) (Errored e'),
               snd (handleResponseError err options client w)))
       \<and> (\<not> instanceofHttpResponseError e \<longrightarrow>
            request_pipe K options client src w =
              (Stream (events (upstream K options src) @ [Res (RequestResult JNull (Inl e) False)])
                 Complete,
               w\<lparr>console_error := console_error w @ [e]\<rparr>))
       \<and> ((\<forall>topic h ty err opts. (topic, Listener h ty) \<in> set (pubsub client) \<longrightarrow>
              outcome h ty err opts = None) \<longrightarrow>
            terminal (fst (request_pipe K options client src w)) = Complete)"
proof -
  note p = request_pipe_errored [OF assms, of client w]
  have a: "request_pipe K options client src w =
              (Stream (events (upstream K options src) @ [Res (RequestResult JNull (Inl e) False)])
                 Complete,
               snd (handleResponseError err options client w))"
    if "e = ResponseError err" "fst (handleResponseError err options client w) = None" for err
    using that p
    by (cases "handleResponseError err options client w")
       (simp add: recover_response_error of_op_def failureResult_def)
  have b: "request_pipe K options client src w =
              (Stream (events (upstream K options src)) (Errored e'),
               snd (handleResponseError err options client w))"
    if "e = ResponseError err" "fst (handleResponseError err options client w) = Some e'"
    for err e'
    using that p
    by (cases "handleResponseError err options client w")
       (simp add: recover_response_error)
  have c: "request_pipe K options client src w =
              (Stream (events (upstream K options src) @ [Res (RequestResult JNull (Inl e) False)])
                 Complete,
               w\<lparr>console_error := console_error w @ [e]\<rparr>)"
    if "\<not> instanceofHttpResponseError e"
    using that p by (simp add: recover_other of_op_def failureResult_def)
  have d: "terminal (fst (request_pipe K options client src w)) = Complete"
    if q: "\<forall>topic h ty err opts. (topic, Listener h ty) \<in> set (pubsub client) \<longrightarrow>
              outcome h ty err opts = None"
  proof (cases "instanceofHttpResponseError e")
    case True
    then obtain err where e: "e = ResponseError err" by (cases e) simp_all
    have "fst (handleResponseError err options client w) = None"
      unfolding handleResponseError_emit
      by (rule emit_quiet) (use q in blast)
    with a [OF e] show ?thesis by simp
  next
    case False
    with c show ?thesis by simp
  qed
  show ?thesis
    using a b c d by blast
qed

theorem request_pipe_resolves_terminal_errors_witness:
  "request_pipe noDefaults emptyObject (fst (listen noDefaults quietHandle createClient))
     (Stream [] (Errored (ResponseError (errorWithStatus 404)))) emptyWorld
     = (Stream [Res (RequestResult JNull (Inl (ResponseError (errorWithStatus 404))) False)] Complete,
        emptyWorld\<lparr>invoked := [(1, NotFound, errorWithStatus 404, emptyObject)]\<rparr>)
   \<and> request_pipe noDefaults emptyObject (fst (listen noDefaults quietHandle createClient))
     (Stream [] (Errored TypeError)) emptyWorld
     = (Stream [Res (RequestResult JNull (Inl TypeError) False)] Complete,
        emptyWorld\<lparr>console_error := [TypeError]\<rparr>)"
proof -
  let ?c = "fst (listen noDefaults quietHandle createClient)"
  have h: "handleResponseError (errorWithStatus 404) emptyObject ?c emptyWorld
      = (None, emptyWorld\<lparr>invoked := [(1, NotFound, errorWithStatus 404, emptyObject)]\<rparr>)"
    by (simp add: handleResponseError_emit listen_bus createClient_def emit_def
        errorWithStatus_def classification_def quietHandle_def emptyWorld_def)
  have "request_pipe noDefaults emptyObject ?c
     (Stream [] (Errored (ResponseError (errorWithStatus 404)))) emptyWorld
     = (Stream [Res (RequestResult JNull (Inl (ResponseError (errorWithStatus 404))) False)] Complete,
        emptyWorld\<lparr>invoked := [(1, NotFound, errorWithStatus 404, emptyObject)]\<rparr>)"
    using request_pipe_resolves_terminal_errors
      [where options = emptyObject and src = "Stream [] (Errored (ResponseError (errorWithStatus 404)))"
         and e = "ResponseError (errorWithStatus 404)" and client = ?c and w = emptyWorld
         and K = noDefaults]
    by (simp add: upstream_empty h)
  moreover have "request_pipe noDefaults emptyObject ?c
     (Stream [] (Errored TypeError)) emptyWorld
     = (Stream [Res (RequestResult JNull (Inl TypeError) False)] Complete,
        emptyWorld\<lparr>console_error := [TypeError]\<rparr>)"
    using request_pipe_resolves_terminal_errors
      [where options = emptyObject and src = "Stream [] (Errored TypeError)"
         and e = "TypeError" and client = ?c and w = emptyWorld and K = noDefaults]
    by (simp add: upstream_empty emptyWorld_def)
  ultimately show ?thesis by blast
qed

lemma valid_get: "isValidMethod (str ''get'')" "str ''/users'' \<noteq> []"
  by (simp_all add: isValidMethod_def str_def)

text \<open>
  A listener that throws: the transport rejects without a response, the classifier
  emits under \<open>Offline\<close>, and the subscriber of \<open>request\<close> sees the stream end with the
  listener's exception.
\<close>

theorem listener_exception_ends_the_stream:
  "map_sum id fst
     (subscribe (request noDefaults (str ''get'') (str ''/users'') emptyObject
                   (fst (listen noDefaults throwingHandle readyClient)))
        offline (fst (listen noDefaults throwingHandle readyClient)) emptyWorld)
     = Inr (Stream [] (Errored (JsError (str ''listener failed''))))"
proof -
  have d: "HTTP_DEFAULT_REQUEST_OPTION noDefaults = emptyObject"
    "HTTP_DEFAULT_CONFIG noDefaults = emptyObject"
    by (simp_all add: noDefaults_def)
  show ?thesis
    by (simp add: subscribe_def request_def readyClient_def init_def createClient_def d
      spread_def override_def emptyObject_def listen_def on_def HttpErrorCodeType_keys_def
      request_exec_def valid_get Let_def offline_def request_pipe_def upstream_def map_op_def
      filter_op_def catchError_op_def recover_def handleResponseError_def emit_def
      throwingHandle_def)
qed

subsection \<open>Invalid arguments\<close>

lemma request_pipe_thrown_by_producer:
  "request_pipe K options client (Stream [] (Errored (JsError m))) w =
     (Stream [Res (RequestResult JNull (Inl (JsError m)) False)] Complete,
      w\<lparr>console_error := console_error w @ [JsError m]\<rparr>)"
  by (simp add: request_pipe_def upstream_empty catchError_op_def recover_other of_op_def
      failureResult_def)

text \<open>
  Claim C6, as amended. On a client that is not initialised \<open>request\<close> throws
  \<open>please call init first\<close> itself, and there is no stream. On an initialised client
  \<open>request\<close> returns a stream; a missing url and an invalid method are thrown by the
  stream's producer at subscription, and the pipeline logs the error and delivers
  \<open>{result: null, response: error, isSuccess: false}\<close> on a stream that completes.
\<close>

theorem invalid_argument_errors:
  "(\<not> inited client \<longrightarrow>
      request K method url options client = Inl (JsError (str ''please call init first'')))
   \<and> (inited client \<longrightarrow>
        (\<exists>obs. request K method url options client = Inr obs
           \<and> (url = [] \<longrightarrow>
                (\<forall>net this w. obs net this w =
                   (Stream [Res (RequestResult JNull
                              (Inl (JsError (str ''the url is required!''))) False)]
                      Complete,
                    w\<lparr>console_error := console_error w
                         @ [JsError (str ''the url is required!'')]\<rparr>)))
           \<and> (url \<noteq> [] \<and> \<not> isValidMethod method \<longrightarrow>
                (\<forall>net this w. obs net this w =
                   (Stream [Res (RequestResult JNull
                              (Inl (JsError (str ''method '' @ method @ str '' is not valid!'')))
                              False)]
                      Complete,
                    w\<lparr>console_error := console_error w
                         @ [JsError (str ''method '' @ method @ str '' is not valid!'')]\<rparr>)))))"
  by (simp add: request_def Let_def request_exec_def request_pipe_thrown_by_producer)

theorem invalid_argument_errors_witness:
  "request noDefaults (str ''get'') (str ''/users'') emptyObject createClient
     = Inl (JsError (str ''please call init first''))
   \<and> map_sum id fst
       (subscribe (request noDefaults (str ''fetch'') (str ''/users'') emptyObject readyClient)
          offline readyClient emptyWorld)
     = Inr (Stream [Res (RequestResult JNull
                      (Inl (JsError (str ''method fetch is not valid!''))) False)]
              Complete)"
proof -
  have n: "\<not> inited createClient" by (simp add: createClient_def)
  have r: "inited readyClient" by (simp add: readyClient_def init_def createClient_def)
  have v: "\<not> isValidMethod (str ''fetch'')" "str ''/users'' \<noteq> []"
    by (simp_all add: isValidMethod_def str_def)
  have m: "str ''method '' @ str ''fetch'' @ str '' is not valid!'' = str ''method fetch is not valid!''"
    by (simp add: str_def)
  have "request noDefaults (str ''get'') (str ''/users'') emptyObject createClient
     = Inl (JsError (str ''please call init first''))"
    using invalid_argument_errors
            [of createClient noDefaults "str ''get''" "str ''/users''" emptyObject] n
    by simp
  moreover have "map_sum id fst
       (subscribe (request noDefaults (str ''fetch'') (str ''/users'') emptyObject readyClient)
          offline readyClient emptyWorld)
     = Inr (Stream [Res (RequestResult JNull
                      (Inl (JsError (str ''method fetch is not valid!''))) False)]
              Complete)"
    using invalid_argument_errors
            [of readyClient noDefaults "str ''fetch''" "str ''/users''" emptyObject] r v
    by (auto simp: subscribe_def m)
  ultimately show ?thesis by blast
qed

text \<open>
  A request without a url on an initialised client: the subscriber receives the failure
  result, and the stream completes.
\<close>

theorem missing_url_becomes_failure_result:
  "map_sum id fst
     (subscribe (request noDefaults (str ''get'') [] emptyObject readyClient) offline readyClient
        emptyWorld)
     = Inr (Stream [Res (RequestResult JNull (Inl (JsError (str ''the url is required!''))) False)]
              Complete)"
  by (simp add: subscribe_def request_def readyClient_def init_def createClient_def Let_def
      request_exec_def request_pipe_thrown_by_producer)

subsection \<open>Observing events\<close>

lemma observe_spread: "observe b = Value v \<Longrightarrow> observe (spread a b) = Value v"
  by (simp add: spread_def override_def)

lemma map_events_raw: "map_events (\<lambda>ev. Inr (Raw ev)) evs = (map Raw evs, None)"
  by (induction evs) simp_all

lemma upstream_event:
  "observe options = Value Event \<Longrightarrow>
     upstream K options src = Stream (map Raw (events src)) (terminal src)"
proof -
  assume o: "observe options = Value Event"
  then have m: "mapStage K options = (\<lambda>ev. Inr (Raw ev))"
    by (auto simp: mapStage_def)
  from o have f: "filterStage options = (\<lambda>ev. True)"
    by (auto simp: filterStage_def)
  show ?thesis
    by (simp add: upstream_def m f filter_op_def map_op_def map_events_raw)
qed

lemma request_pipe_events:
  "events (fst (request_pipe K options client src w)) =
     events (upstream K options src) @ drop (length (events (upstream K options src)))
        (events (fst (request_pipe K options client src w)))"
  by (simp add: request_pipe_def catchError_op_def
      split: Terminal.splits prod.splits sum.splits)

lemma request_pipe_no_error:
  "(\<And>e. terminal (upstream K options src) \<noteq> Errored e) \<Longrightarrow>
     request_pipe K options client src w = (upstream K options src, w)"
  by (cases "terminal (upstream K options src)") (auto simp: request_pipe_def catchError_op_def)

text \<open>
  Claim C10. When \<open>options.observe\<close> is \<open>Event\<close>, the stages before \<open>catchError\<close> pass every
  event of the executor's stream on as it is, progress events and the response alike,
  in order and unwrapped; these are the first values the subscriber receives, and all
  of them when the executor's stream does not end with an error. The result does not
  depend on \<open>responseResultKey\<close> or \<open>successCode\<close>: the interpreter has no part in it. The
  same holds for the stream \<open>request\<close> returns, whose merged options have the per-call
  \<open>observe\<close>.
\<close>

theorem observe_event_delivers_every_event:
  assumes "observe options = Value Event"
  shows "upstream K options src = Stream (map Raw (events src)) (terminal src)
       \<and> take (length (events src)) (events (fst (request_pipe K options client src w)))
           = map Raw (events src)
       \<and> ((\<forall>e. terminal src \<noteq> Errored e) \<longrightarrow>
            request_pipe K options client src w
              = (Stream (map Raw (events src)) (terminal src), w))
       \<and> upstream K (options\<lparr>responseResultKey := rk, successCode := sc\<rparr>) src
           = upstream K options src
       \<and> (inited c \<longrightarrow>
            (\<exists>obs. request K method url options c = Inr obs
               \<and> (\<forall>net this w0.
                     take (length (events (fst (request_exec net method url
                               (spread (spread (HTTP_DEFAULT_REQUEST_OPTION K) (config c)) options)
                               this w0))))
                       (events (fst (obs net this w0)))
                     = map Raw (events (fst (request_exec net method url
                               (spread (spread (HTTP_DEFAULT_REQUEST_OPTION K) (config c)) options)
                               this w0))))))"
proof -
  have u: "upstream K options src = Stream (map Raw (events src)) (terminal src)" for src
    using assms by (rule upstream_event)
  have t: "take (length (events src)) (events (fst (request_pipe K options client src w)))
           = map Raw (events src)"
    if "observe options = Value Event" for options src client w
    using request_pipe_events [of K options client src w] upstream_event [OF that, of K src]
    by (metis Stream.sel(1) append_eq_conv_conj length_map)
  have n: "request_pipe K options client src w
      = (Stream (map Raw (events src)) (terminal src), w)"
    if "\<forall>e. terminal src \<noteq> Errored e"
    using request_pipe_no_error [of K options src client w] that u by simp
  have i: "upstream K (options\<lparr>responseResultKey := rk, successCode := sc\<rparr>) src
           = upstream K options src"
    using assms by (simp add: upstream_event)
  let ?m = "spread (spread (HTTP_DEFAULT_REQUEST_OPTION K) (config c)) options"
  have om: "observe ?m = Value Event"
    using assms by (rule observe_spread)
  have r: "\<exists>obs. request K method url options c = Inr obs
               \<and> (\<forall>net this w0.
                     take (length (events (fst (request_exec net method url ?m this w0))))
                       (events (fst (obs net this w0)))
                     = map Raw (events (fst (request_exec net method url ?m this w0))))"
    if "inited c"
    using that t [OF om]
    by (simp add: request_def Let_def split: prod.splits)
  show ?thesis
    using u t [OF assms] n i r by blast
qed

theorem observe_event_delivers_every_event_witness:
  "request_pipe noDefaults (emptyObject\<lparr>observe := Value Event\<rparr>) readyClient
     (fst (request_exec reporting (str ''get'') (str ''/users'')
        (emptyObject\<lparr>observe := Value Event\<rparr>) readyClient emptyWorld)) emptyWorld
   = (Stream [Raw (HttpUploadProgressEvent (ProgressEvent 1 2)),
              Raw (HttpDownloadProgressEvent (ProgressEvent 3 4)),
              Raw (Response (AxiosResponse (JObj [(str ''code'', JNum (numOfInt 7))]) 200))]
        Complete,
      emptyWorld)"
proof -
  let ?o = "emptyObject\<lparr>observe := Value Event\<rparr>"
  have o: "observe ?o = Value Event" by simp
  have x: "fst (request_exec reporting (str ''get'') (str ''/users'') ?o readyClient emptyWorld) =
      Stream [HttpUploadProgressEvent (ProgressEvent 1 2),
              HttpDownloadProgressEvent (ProgressEvent 3 4),
              Response (AxiosResponse (JObj [(str ''code'', JNum (numOfInt 7))]) 200)] Complete"
    by (simp add: request_exec_def valid_get Let_def reporting_def emptyObject_def)
  show ?thesis
    using observe_event_delivers_every_event
      [OF o, where src = "fst (request_exec reporting (str ''get'') (str ''/users'') ?o
                               readyClient emptyWorld)"
         and client = readyClient and w = emptyWorld and K = noDefaults]
    by (simp add: x)
qed

end
